theory Spec2Isabelle
  imports Main
begin

section \<open>JavaScript values used by the sources\<close>

text \<open>
  A JavaScript \<^verbatim>\<open>Map\<close> holds one entry per key and iterates in insertion order, so it is
  an association list here. \<^verbatim>\<open>get\<close> of a missing key and an array read out of range
  both give \<^verbatim>\<open>undefined\<close>, which is \<open>None\<close>.
\<close>

type_synonym ('k, 'v) js_map = "('k \<times> 'v) list"

definition map_get :: "('k, 'v) js_map \<Rightarrow> 'k \<Rightarrow> 'v option" where
  "map_get m k = map_of m k"

definition map_has :: "('k, 'v) js_map \<Rightarrow> 'k \<Rightarrow> bool" where
  "map_has m k = (map_of m k \<noteq> None)"

definition map_keys :: "('k, 'v) js_map \<Rightarrow> 'k list" where
  "map_keys m = map fst m"

definition map_delete :: "('k, 'v) js_map \<Rightarrow> 'k \<Rightarrow> ('k, 'v) js_map" where
  "map_delete m k = filter (\<lambda>kv. fst kv \<noteq> k) m"

definition map_set :: "('k, 'v) js_map \<Rightarrow> 'k \<Rightarrow> 'v \<Rightarrow> ('k, 'v) js_map" where
  "map_set m k v =
     (if map_has m k then map (\<lambda>kv. if fst kv = k then (k, v) else kv) m else m @ [(k, v)])"

definition array_at :: "'a list \<Rightarrow> nat \<Rightarrow> 'a option" where
  "array_at xs i = (if i < length xs then Some (xs ! i) else None)"

section \<open>Positions and tokens\<close>

record Position =
  lineNumber :: nat
  lineCodeUnit :: nat

record TokenPosition = Position +
  codeUnit :: nat

record GraphemePosition = Position +
  columnNumber :: nat

text \<open>
  Modelled from the spec: the declaration of \<^verbatim>\<open>Language.TokenKind\<close> is not among the
  sources. The spec makes it a closed enumeration (identifier, numeric, string, each
  keyword, each punctuation symbol). The kinds the sources name are constructors of
  their own; \<open>OtherTokenKind\<close> stands for each remaining literal or punctuation kind.
\<close>

datatype TokenKind =
    Bang | Identifier
  | KeywordAnd | KeywordAs | KeywordEach | KeywordElse | KeywordError | KeywordFalse
  | KeywordHashBinary | KeywordHashDate | KeywordHashDateTime | KeywordHashDateTimeZone
  | KeywordHashDuration | KeywordHashInfinity | KeywordHashNan | KeywordHashSections
  | KeywordHashShared | KeywordHashTable | KeywordHashTime
  | KeywordIf | KeywordIn | KeywordIs | KeywordLet | KeywordMeta | KeywordNot | KeywordOr
  | KeywordOtherwise | KeywordSection | KeywordShared | KeywordThen | KeywordTrue
  | KeywordTry | KeywordType
  | LeftBrace | LeftBracket | LeftParenthesis
  | OtherTokenKind string

record Token =
  kind :: TokenKind
  data :: string
  positionStart :: TokenPosition
  positionEnd :: TokenPosition

text \<open>
  The lexer snapshot: the token array, and its two methods that count graphemes, which
  are defined outside the sources and are fields here.
\<close>

record LexerSnapshot =
  tokens :: "Token list"
  graphemePositionStartFrom :: "Token \<Rightarrow> GraphemePosition"
  columnNumberStartFrom :: "Token \<Rightarrow> nat"

section \<open>Errors\<close>

text \<open>
  Every \<^verbatim>\<open>throw\<close> of the sources is a value. \<open>InvariantError\<close> stands for
  \<^verbatim>\<open>CommonError.InvariantError\<close>, which is also what a failed \<^verbatim>\<open>Assert\<close> raises.
\<close>

datatype error =
    InvariantError string
  | UnusedTokensRemainError Token GraphemePosition

section \<open>The node-id map\<close>

text \<open>
  Modelled from the spec: \<^verbatim>\<open>Ast.NodeKind\<close> is declared outside the sources. The
  kinds the sources name are constructors; \<open>OtherNodeKind\<close> stands for each of the
  remaining ones.
\<close>

datatype NodeKind =
    ArrayWrapper | Constant | Csv | EachExpression | FieldProjection
  | FieldSpecificationList | FunctionExpression | GeneralizedIdentifier | Identifier
  | IdentifierExpression | IdentifierPairedExpression | InvokeExpression | LetExpression
  | ListExpression | ListLiteral | ListType | Parameter | ParameterList
  | RecordExpression | RecordLiteral | RecursivePrimaryExpression | Section
  | OtherNodeKind string

text \<open>
  What an AST node and a context node share (\<^verbatim>\<open>xorNode.node.id\<close>,
  \<^verbatim>\<open>xorNode.node.kind\<close>, \<^verbatim>\<open>xorNode.node.maybeAttributeIndex\<close>). The field
  \<^verbatim>\<open>id\<close> is \<open>node_id\<close> here.
\<close>

record INode =
  node_id :: nat
  kind :: NodeKind
  maybeAttributeIndex :: "nat option"

record TokenRange =
  tokenIndexStart :: nat
  tokenIndexEnd :: nat
  positionStart :: TokenPosition
  positionEnd :: TokenPosition

record Ast_INode = INode +
  tokenRange :: TokenRange
  isLeaf :: bool

text \<open>
  \<^verbatim>\<open>Ast.Constant\<close>, \<^verbatim>\<open>Ast.Identifier\<close> and \<^verbatim>\<open>Ast.GeneralizedIdentifier\<close>:
  leaves with a \<^verbatim>\<open>literal\<close>.
\<close>

record Ast_Constant = Ast_INode +
  literal :: string

text \<open>
  \<^verbatim>\<open>Ast.TNode\<close> is a union tagged by \<open>kind\<close>. The record carries the fields the
  sources read: \<open>identifier_node\<close> (the field \<^verbatim>\<open>identifier\<close>) and
  \<open>maybeInclusiveConstant\<close> of an identifier expression, \<open>closeWrapperConstant\<close> of a wrapped node (invoke expression, list,
  record). The sources read each only after a test of \<open>kind\<close>.
\<close>

record Ast_TNode = Ast_Constant +
  identifier_node :: Ast_Constant
  maybeInclusiveConstant :: "Ast_Constant option"
  closeWrapperConstant :: Ast_Constant

record ParseContext_Node = INode +
  maybeTokenStart :: "Token option"
  tokenIndexStart :: nat
  attributeCounter :: nat

datatype TXorNode = XorAst Ast_TNode | XorContext ParseContext_Node

record Collection =
  astNodeById :: "(nat, Ast_TNode) js_map"
  contextNodeById :: "(nat, ParseContext_Node) js_map"
  parentIdById :: "(nat, nat) js_map"
  childIdsById :: "(nat, nat list) js_map"

record ParseContext_State =
  idCounter :: nat
  nodeIdMapCollection :: Collection
  leafNodeIds :: "nat list"

section \<open>Parser state (IParserStateUtils.ts)\<close>

record IParserState =
  lexerSnapshot :: LexerSnapshot
  tokenIndex :: nat
  maybeCurrentToken :: "Token option"
  maybeCurrentTokenKind :: "TokenKind option"
  contextState :: ParseContext_State
  maybeCurrentContextNode :: "ParseContext_Node option"

text \<open>The field \<^verbatim>\<open>tokenIndex\<close> of a backup is \<open>backup_tokenIndex\<close>.\<close>

record FastStateBackup =
  backup_tokenIndex :: nat
  contextStateIdCounter :: nat
  maybeContextNodeId :: "nat option"

definition fastStateBackup :: "IParserState \<Rightarrow> FastStateBackup" where
  "fastStateBackup state =
     \<lparr> backup_tokenIndex = tokenIndex state,
       contextStateIdCounter = idCounter (contextState state),
       maybeContextNodeId = map_option node_id (maybeCurrentContextNode state) \<rparr>"

subsection \<open>Array.prototype.sort without a comparator\<close>

text \<open>
  \<^verbatim>\<open>newAstNodeIds.sort()\<close> is called with no comparator, so JavaScript converts each
  element to a string and orders the strings by code unit. \<open>toString\<close> is the decimal
  string of a node id; \<open>js_sort\<close> is a stable insertion sort by that order.
\<close>

fun toString :: "nat \<Rightarrow> string" where
  "toString n =
     (if n < 10 then [''0123456789'' ! n]
      else toString (n div 10) @ [''0123456789'' ! (n mod 10)])"

declare toString.simps [simp del]

fun string_less :: "string \<Rightarrow> string \<Rightarrow> bool" where
  "string_less [] [] = False"
| "string_less [] (y # ys) = True"
| "string_less (x # xs) [] = False"
| "string_less (x # xs) (y # ys) =
     ((of_char x :: nat) < of_char y \<or> (x = y \<and> string_less xs ys))"

fun js_insert :: "nat \<Rightarrow> nat list \<Rightarrow> nat list" where
  "js_insert x [] = [x]"
| "js_insert x (y # ys) =
     (if string_less (toString y) (toString x) then y # js_insert x ys else x # y # ys)"

definition js_sort :: "nat list \<Rightarrow> nat list" where
  "js_sort xs = foldr js_insert xs []"

subsection \<open>Deleting nodes\<close>

text \<open>
  Modelled from the spec: \<^verbatim>\<open>ParseContextUtils.deleteAst\<close>,
  \<^verbatim>\<open>ParseContextUtils.deleteContext\<close> and \<^verbatim>\<open>NodeIdMapUtils.assertContext\<close> are
  called by \<^verbatim>\<open>applyFastStateBackup\<close> and defined outside the sources. The spec: the
  node-id map owns all nodes; "for each deleted AST, also unlink from its parent's
  childIdsById unless the parent is itself being deleted. Deleting a context node also
  unlinks"; the leaf ids are exactly the ids whose AST node is a leaf. A deleted node
  leaves the four mappings and the leaf ids.
\<close>

definition unlinkFromParent :: "Collection \<Rightarrow> nat \<Rightarrow> Collection" where
  "unlinkFromParent c nodeId =
     (case map_get (parentIdById c) nodeId of
        None \<Rightarrow> c
      | Some parentId \<Rightarrow>
          (case map_get (childIdsById c) parentId of
             None \<Rightarrow> c
           | Some childIds \<Rightarrow>
               c\<lparr>childIdsById := map_set (childIdsById c) parentId (removeAll nodeId childIds)\<rparr>))"

definition deleteAst :: "ParseContext_State \<Rightarrow> nat \<Rightarrow> bool \<Rightarrow> ParseContext_State" where
  "deleteAst cs nodeId parentWillBeDeleted =
     (let c = nodeIdMapCollection cs;
          c1 = (if parentWillBeDeleted then c else unlinkFromParent c nodeId);
          c2 = c1\<lparr>astNodeById := map_delete (astNodeById c1) nodeId,
                  parentIdById := map_delete (parentIdById c1) nodeId,
                  childIdsById := map_delete (childIdsById c1) nodeId\<rparr>
      in cs\<lparr>nodeIdMapCollection := c2, leafNodeIds := removeAll nodeId (leafNodeIds cs)\<rparr>)"

definition deleteContext :: "ParseContext_State \<Rightarrow> nat \<Rightarrow> ParseContext_State" where
  "deleteContext cs nodeId =
     (let c = nodeIdMapCollection cs;
          c1 = unlinkFromParent c nodeId;
          c2 = c1\<lparr>contextNodeById := map_delete (contextNodeById c1) nodeId,
                  parentIdById := map_delete (parentIdById c1) nodeId,
                  childIdsById := map_delete (childIdsById c1) nodeId\<rparr>
      in cs\<lparr>nodeIdMapCollection := c2\<rparr>)"

definition assertContext ::
  "(nat, ParseContext_Node) js_map \<Rightarrow> nat \<Rightarrow> error + ParseContext_Node" where
  "assertContext contextNodeById' nodeId =
     (case map_get contextNodeById' nodeId of
        None \<Rightarrow> Inl (InvariantError ''nodeId is not in contextNodeById'')
      | Some node \<Rightarrow> Inr node)"

subsection \<open>applyFastStateBackup\<close>

definition newAstNodeIds :: "Collection \<Rightarrow> nat \<Rightarrow> nat list" where
  "newAstNodeIds c backupIdCounter =
     filter (\<lambda>nodeId. nodeId > backupIdCounter) (map_keys (astNodeById c))"

definition newContextNodeIds :: "Collection \<Rightarrow> nat \<Rightarrow> nat list" where
  "newContextNodeIds c backupIdCounter =
     filter (\<lambda>nodeId. nodeId > backupIdCounter) (map_keys (contextNodeById c))"

text \<open>The order of a deletion loop: \<^verbatim>\<open>ids.sort().reverse()\<close>.\<close>

definition deletionOrder :: "nat list \<Rightarrow> nat list" where
  "deletionOrder ids = rev (js_sort ids)"

definition parentWillBeDeleted :: "Collection \<Rightarrow> nat \<Rightarrow> nat \<Rightarrow> bool" where
  "parentWillBeDeleted c backupIdCounter nodeId =
     (case map_get (parentIdById c) nodeId of
        None \<Rightarrow> False
      | Some parentId \<Rightarrow> parentId \<ge> backupIdCounter)"

text \<open>The first loop, over the new AST nodes; the parent is read as each node's turn comes.\<close>

fun deleteAstLoop :: "ParseContext_State \<Rightarrow> nat \<Rightarrow> nat list \<Rightarrow> ParseContext_State" where
  "deleteAstLoop cs backupIdCounter [] = cs"
| "deleteAstLoop cs backupIdCounter (nodeId # nodeIds) =
     deleteAstLoop
       (deleteAst cs nodeId (parentWillBeDeleted (nodeIdMapCollection cs) backupIdCounter nodeId))
       backupIdCounter nodeIds"

text \<open>The second loop, over the new context nodes.\<close>

fun deleteContextLoop :: "ParseContext_State \<Rightarrow> nat list \<Rightarrow> ParseContext_State" where
  "deleteContextLoop cs [] = cs"
| "deleteContextLoop cs (nodeId # nodeIds) = deleteContextLoop (deleteContext cs nodeId) nodeIds"

text \<open>
  \<^verbatim>\<open>if (backup.maybeContextNodeId)\<close> tests the id for truthiness: \<^verbatim>\<open>undefined\<close> and
  \<open>0\<close> both take the else branch. \<open>truthyId\<close> gives the id that takes the then branch.
\<close>

definition truthyId :: "nat option \<Rightarrow> nat option" where
  "truthyId maybeId =
     (case maybeId of None \<Rightarrow> None | Some n \<Rightarrow> if n = 0 then None else Some n)"

definition applyFastStateBackup :: "IParserState \<Rightarrow> FastStateBackup \<Rightarrow> error + IParserState" where
  "applyFastStateBackup state backup =
     (let maybeToken = array_at (tokens (lexerSnapshot state)) (backup_tokenIndex backup);
          state1 = state\<lparr>tokenIndex := backup_tokenIndex backup,
                         maybeCurrentToken := maybeToken,
                         maybeCurrentTokenKind := map_option Token.kind maybeToken\<rparr>;
          backupIdCounter = contextStateIdCounter backup;
          cs0 = (contextState state1)\<lparr>idCounter := backupIdCounter\<rparr>;
          c0 = nodeIdMapCollection cs0;
          cs1 = deleteAstLoop cs0 backupIdCounter
                  (deletionOrder (newAstNodeIds c0 backupIdCounter));
          cs2 = deleteContextLoop cs1 (deletionOrder (newContextNodeIds c0 backupIdCounter));
          state2 = state1\<lparr>contextState := cs2\<rparr>
      in (case truthyId (maybeContextNodeId backup) of
            Some nodeId \<Rightarrow>
              (case assertContext (contextNodeById (nodeIdMapCollection cs2)) nodeId of
                 Inl e \<Rightarrow> Inl e
               | Inr node \<Rightarrow> Inr (state2\<lparr>maybeCurrentContextNode := Some node\<rparr>))
          | None \<Rightarrow> Inr (state2\<lparr>maybeCurrentContextNode := None\<rparr>)))"

text \<open>
  \<^verbatim>\<open>incrementAttributeCounter\<close> mutates the current context node. That object is the
  one \<open>contextNodeById\<close> holds under its id (\<^verbatim>\<open>assertContext\<close> above returns the
  registered object), so the registered node changes with it.
\<close>

definition incrementAttributeCounter :: "IParserState \<Rightarrow> error + IParserState" where
  "incrementAttributeCounter state =
     (case maybeCurrentContextNode state of
        None \<Rightarrow> Inl (InvariantError ''state.maybeCurrentContextNode'')
      | Some currentContextNode \<Rightarrow>
          (let node' = currentContextNode\<lparr>attributeCounter := attributeCounter currentContextNode + 1\<rparr>;
               cs = contextState state;
               c = nodeIdMapCollection cs;
               c' = c\<lparr>contextNodeById :=
                        map (\<lambda>kv. if snd kv = currentContextNode then (fst kv, node') else kv)
                          (contextNodeById c)\<rparr>
           in Inr (state\<lparr>maybeCurrentContextNode := Some node',
                         contextState := cs\<lparr>nodeIdMapCollection := c'\<rparr>\<rparr>)))"

subsection \<open>Token predicates and assertions\<close>

definition isOnGeneralizedIdentifierStart :: "IParserState \<Rightarrow> nat \<Rightarrow> bool" where
  "isOnGeneralizedIdentifierStart state tokenIndex' =
     (case map_option Token.kind (array_at (tokens (lexerSnapshot state)) tokenIndex') of
        None \<Rightarrow> False
      | Some maybeTokenKind \<Rightarrow>
          (case maybeTokenKind of
             TokenKind.Identifier \<Rightarrow> True
           | KeywordAnd \<Rightarrow> True
           | KeywordAs \<Rightarrow> True
           | KeywordEach \<Rightarrow> True
           | KeywordElse \<Rightarrow> True
           | KeywordError \<Rightarrow> True
           | KeywordFalse \<Rightarrow> True
           | KeywordHashBinary \<Rightarrow> True
           | KeywordHashDate \<Rightarrow> True
           | KeywordHashDateTime \<Rightarrow> True
           | KeywordHashDateTimeZone \<Rightarrow> True
           | KeywordHashDuration \<Rightarrow> True
           | KeywordHashInfinity \<Rightarrow> True
           | KeywordHashNan \<Rightarrow> True
           | KeywordHashSections \<Rightarrow> True
           | KeywordHashShared \<Rightarrow> True
           | KeywordHashTable \<Rightarrow> True
           | KeywordHashTime \<Rightarrow> True
           | KeywordIf \<Rightarrow> True
           | KeywordIn \<Rightarrow> True
           | KeywordIs \<Rightarrow> True
           | KeywordLet \<Rightarrow> True
           | KeywordMeta \<Rightarrow> True
           | KeywordNot \<Rightarrow> True
           | KeywordOr \<Rightarrow> True
           | KeywordOtherwise \<Rightarrow> True
           | KeywordSection \<Rightarrow> True
           | KeywordShared \<Rightarrow> True
           | KeywordThen \<Rightarrow> True
           | KeywordTrue \<Rightarrow> True
           | KeywordTry \<Rightarrow> True
           | KeywordType \<Rightarrow> True
           | _ \<Rightarrow> False))"

text \<open>The call with the default argument \<^verbatim>\<open>tokenIndex = state.tokenIndex\<close>.\<close>

definition isOnGeneralizedIdentifierStart_current :: "IParserState \<Rightarrow> bool" where
  "isOnGeneralizedIdentifierStart_current state =
     isOnGeneralizedIdentifierStart state (tokenIndex state)"

definition assertTokenAt :: "IParserState \<Rightarrow> nat \<Rightarrow> error + Token" where
  "assertTokenAt state tokenIndex' =
     (case array_at (tokens (lexerSnapshot state)) tokenIndex' of
        None \<Rightarrow> Inl (InvariantError ''maybeToken'')
      | Some maybeToken \<Rightarrow> Inr maybeToken)"

definition assertNoMoreTokens :: "IParserState \<Rightarrow> error + unit" where
  "assertNoMoreTokens state =
     (if tokenIndex state = length (tokens (lexerSnapshot state)) then Inr ()
      else (case assertTokenAt state (tokenIndex state) of
              Inl e \<Rightarrow> Inl e
            | Inr token \<Rightarrow>
                Inl (UnusedTokensRemainError token
                       (graphemePositionStartFrom (lexerSnapshot state) token))))"

section \<open>Node-id map queries\<close>

definition xor_id :: "TXorNode \<Rightarrow> nat" where
  "xor_id x = (case x of XorAst a \<Rightarrow> node_id a | XorContext n \<Rightarrow> node_id n)"

definition xor_kind :: "TXorNode \<Rightarrow> NodeKind" where
  "xor_kind x = (case x of XorAst a \<Rightarrow> INode.kind a | XorContext n \<Rightarrow> INode.kind n)"

definition xor_maybeAttributeIndex :: "TXorNode \<Rightarrow> nat option" where
  "xor_maybeAttributeIndex x =
     (case x of XorAst a \<Rightarrow> maybeAttributeIndex a | XorContext n \<Rightarrow> maybeAttributeIndex n)"

text \<open>
  Modelled from the spec: the queries of \<^verbatim>\<open>NodeIdMapUtils\<close> and \<^verbatim>\<open>XorNodeUtils\<close>
  are defined outside the sources. The spec lists \<^verbatim>\<open>maybeXor(id)\<close>,
  \<^verbatim>\<open>assertXor(id)\<close>, and "\<^verbatim>\<open>maybeChildXorByAttributeIndex(parentId, attrIdx,
  allowedKinds?)\<close> returns the child whose \<^verbatim>\<open>maybeAttributeIndex == attrIdx\<close> if its
  kind is in \<^verbatim>\<open>allowedKinds\<close> (or if \<^verbatim>\<open>allowedKinds\<close> is absent)";
  \<^verbatim>\<open>maybeChildAstByAttributeIndex\<close> is "the same but requires the child to already be
  an AST node". An id is an AST node or a context node, never both; the AST map is read
  first. The asserting variants raise where the other returns \<^verbatim>\<open>undefined\<close>.
\<close>

definition maybeXor :: "Collection \<Rightarrow> nat \<Rightarrow> TXorNode option" where
  "maybeXor c nodeId =
     (case map_get (astNodeById c) nodeId of
        Some astNode \<Rightarrow> Some (XorAst astNode)
      | None \<Rightarrow> map_option XorContext (map_get (contextNodeById c) nodeId))"

definition assertXor :: "Collection \<Rightarrow> nat \<Rightarrow> error + TXorNode" where
  "assertXor c nodeId =
     (case maybeXor c nodeId of
        None \<Rightarrow> Inl (InvariantError ''nodeId is neither an AST node nor a context node'')
      | Some x \<Rightarrow> Inr x)"

definition assertParentXor :: "Collection \<Rightarrow> nat \<Rightarrow> error + TXorNode" where
  "assertParentXor c nodeId =
     (case map_get (parentIdById c) nodeId of
        None \<Rightarrow> Inl (InvariantError ''nodeId has no parent'')
      | Some parentId \<Rightarrow> assertXor c parentId)"

definition maybeChildXorByAttributeIndex ::
  "Collection \<Rightarrow> nat \<Rightarrow> nat \<Rightarrow> NodeKind list option \<Rightarrow> TXorNode option" where
  "maybeChildXorByAttributeIndex c parentId attributeIndex maybeAllowedNodeKinds =
     (case map_get (childIdsById c) parentId of
        None \<Rightarrow> None
      | Some childIds \<Rightarrow>
          (case find (\<lambda>x. xor_maybeAttributeIndex x = Some attributeIndex)
                  (List.map_filter (maybeXor c) childIds) of
             None \<Rightarrow> None
           | Some x \<Rightarrow>
               (case maybeAllowedNodeKinds of
                  None \<Rightarrow> Some x
                | Some allowedNodeKinds \<Rightarrow>
                    if xor_kind x \<in> set allowedNodeKinds then Some x else None)))"

definition maybeChildAstByAttributeIndex ::
  "Collection \<Rightarrow> nat \<Rightarrow> nat \<Rightarrow> NodeKind list option \<Rightarrow> Ast_TNode option" where
  "maybeChildAstByAttributeIndex c parentId attributeIndex maybeAllowedNodeKinds =
     (case maybeChildXorByAttributeIndex c parentId attributeIndex maybeAllowedNodeKinds of
        Some (XorAst astNode) \<Rightarrow> Some astNode
      | _ \<Rightarrow> None)"

definition assertAstNodeKind :: "TXorNode \<Rightarrow> NodeKind \<Rightarrow> error + unit" where
  "assertAstNodeKind x expectedNodeKind =
     (if xor_kind x = expectedNodeKind then Inr ()
      else Inl (InvariantError ''unexpected node kind''))"

section \<open>Sibling lookup (nodeIdMapIterator.ts)\<close>

definition assertIterChildIds :: "(nat, nat list) js_map \<Rightarrow> nat \<Rightarrow> error + nat list" where
  "assertIterChildIds childIdsById' nodeId =
     (case map_get childIdsById' nodeId of
        None \<Rightarrow> Inl (InvariantError ''key is not in the map'')
      | Some childIds \<Rightarrow> Inr childIds)"

text \<open>
  \<^verbatim>\<open>offset\<close> may be negative, so the target index is an integer. Past the guard the
  index is above the length of \<^verbatim>\<open>childIds\<close>; an array read there gives
  \<^verbatim>\<open>undefined\<close>, which is the key of no node.
\<close>

definition maybeNthSiblingXor :: "Collection \<Rightarrow> nat \<Rightarrow> int \<Rightarrow> error + TXorNode option" where
  "maybeNthSiblingXor c rootId offset =
     (case assertXor c rootId of
        Inl e \<Rightarrow> Inl e
      | Inr childXorNode \<Rightarrow>
          (case xor_maybeAttributeIndex childXorNode of
             None \<Rightarrow> Inr None
           | Some childAttributeIndex \<Rightarrow>
               (let attributeIndex = int childAttributeIndex + offset in
                if attributeIndex < 0 then Inr None
                else (case assertParentXor c rootId of
                        Inl e \<Rightarrow> Inl e
                      | Inr parentXorNode \<Rightarrow>
                          (case assertIterChildIds (childIdsById c) (xor_id parentXorNode) of
                             Inl e \<Rightarrow> Inl e
                           | Inr childIds \<Rightarrow>
                               if int (length childIds) \<ge> attributeIndex then Inr None
                               else Inr (case array_at childIds (nat attributeIndex) of
                                           None \<Rightarrow> None
                                         | Some childId \<Rightarrow> maybeXor c childId))))))"

definition maybeNextSiblingXor :: "Collection \<Rightarrow> nat \<Rightarrow> error + TXorNode option" where
  "maybeNextSiblingXor c nodeId = maybeNthSiblingXor c nodeId 1"

section \<open>Position predicates (positionUtils.ts)\<close>

text \<open>
  Line numbers and code units are natural numbers; \<^verbatim>\<open>lineCodeUnit - 1\<close> can be
  \<open>-1\<close>, so the bounds are integers.
\<close>

definition isBeforeTokenPosition :: "Position \<Rightarrow> TokenPosition \<Rightarrow> bool \<Rightarrow> bool" where
  "isBeforeTokenPosition position tokenPosition isBoundIncluded =
     (let positionLineNumber = lineNumber position in
      if positionLineNumber < lineNumber tokenPosition then True
      else if positionLineNumber > lineNumber tokenPosition then False
      else (let upperBound = (if isBoundIncluded then int (lineCodeUnit tokenPosition)
                              else int (lineCodeUnit tokenPosition) + 1)
            in int (lineCodeUnit position) < upperBound))"

definition isOnTokenPosition :: "Position \<Rightarrow> TokenPosition \<Rightarrow> bool" where
  "isOnTokenPosition position tokenPosition =
     (lineNumber position = lineNumber tokenPosition
      \<and> lineCodeUnit position = lineCodeUnit tokenPosition)"

definition isAfterTokenPosition :: "Position \<Rightarrow> TokenPosition \<Rightarrow> bool \<Rightarrow> bool" where
  "isAfterTokenPosition position tokenPosition isBoundIncluded =
     (let positionLineNumber = lineNumber position in
      if positionLineNumber < lineNumber tokenPosition then False
      else if positionLineNumber > lineNumber tokenPosition then True
      else (let upperBound = (if isBoundIncluded then int (lineCodeUnit tokenPosition)
                              else int (lineCodeUnit tokenPosition) - 1)
            in int (lineCodeUnit position) > upperBound))"

definition isBeforeAstNode :: "Position \<Rightarrow> Ast_TNode \<Rightarrow> bool \<Rightarrow> bool" where
  "isBeforeAstNode position astNode isBoundIncluded =
     isBeforeTokenPosition position (TokenRange.positionStart (tokenRange astNode)) isBoundIncluded"

definition isAfterAstNode :: "Position \<Rightarrow> Ast_TNode \<Rightarrow> bool \<Rightarrow> bool" where
  "isAfterAstNode position astNode isBoundIncluded =
     isAfterTokenPosition position (TokenRange.positionEnd (tokenRange astNode)) isBoundIncluded"

definition isInAstNode :: "Position \<Rightarrow> Ast_TNode \<Rightarrow> bool \<Rightarrow> bool \<Rightarrow> bool" where
  "isInAstNode position astNode isLowerBoundIncluded isHigherBoundIncluded =
     (\<not> isBeforeAstNode position astNode isLowerBoundIncluded
      \<and> \<not> isAfterAstNode position astNode isHigherBoundIncluded)"

definition isOnAstNodeStart :: "Position \<Rightarrow> Ast_TNode \<Rightarrow> bool" where
  "isOnAstNodeStart position astNode =
     isOnTokenPosition position (TokenRange.positionStart (tokenRange astNode))"

definition isOnAstNodeEnd :: "Position \<Rightarrow> Ast_TNode \<Rightarrow> bool" where
  "isOnAstNodeEnd position astNode =
     isOnTokenPosition position (TokenRange.positionEnd (tokenRange astNode))"

definition isInToken :: "Position \<Rightarrow> Token \<Rightarrow> bool \<Rightarrow> bool \<Rightarrow> bool" where
  "isInToken position token isLowerBoundIncluded isHigherBoundIncluded =
     (\<not> isBeforeTokenPosition position (Token.positionStart token) isLowerBoundIncluded
      \<and> \<not> isAfterTokenPosition position (Token.positionEnd token) isHigherBoundIncluded)"

definition isBeforeContextNode :: "Position \<Rightarrow> ParseContext_Node \<Rightarrow> bool \<Rightarrow> bool" where
  "isBeforeContextNode position contextNode isBoundIncluded =
     (case maybeTokenStart contextNode of
        None \<Rightarrow> False
      | Some tokenStart \<Rightarrow>
          isBeforeTokenPosition position (Token.positionStart tokenStart) isBoundIncluded)"

text \<open>
  \<^verbatim>\<open>NodeIdMapUtils.maybeRightMostLeaf\<close> is defined outside the sources; the predicates
  that call it take it as the parameter \<open>maybeRightMostLeaf\<close>.
\<close>

type_synonym RightMostLeaf = "Collection \<Rightarrow> nat \<Rightarrow> Ast_TNode option"

definition isAfterContextNode ::
  "RightMostLeaf \<Rightarrow> Position \<Rightarrow> Collection \<Rightarrow> ParseContext_Node \<Rightarrow> bool \<Rightarrow> bool" where
  "isAfterContextNode maybeRightMostLeaf position c contextNode isBoundIncluded =
     (case maybeRightMostLeaf c (node_id contextNode) of
        None \<Rightarrow>
          (case maybeTokenStart contextNode of
             None \<Rightarrow> False
           | Some tokenStart \<Rightarrow>
               isAfterTokenPosition position (Token.positionEnd tokenStart) isBoundIncluded)
      | Some leaf \<Rightarrow> isAfterAstNode position leaf isBoundIncluded)"

definition isInContextNode ::
  "RightMostLeaf \<Rightarrow> Position \<Rightarrow> Collection \<Rightarrow> ParseContext_Node \<Rightarrow> bool \<Rightarrow> bool \<Rightarrow> bool" where
  "isInContextNode maybeRightMostLeaf position c contextNode isLowerBoundIncluded
       isHigherBoundIncluded =
     (\<not> isBeforeContextNode position contextNode isLowerBoundIncluded
      \<and> \<not> isAfterContextNode maybeRightMostLeaf position c contextNode isHigherBoundIncluded)"

definition isOnContextNodeStart :: "Position \<Rightarrow> ParseContext_Node \<Rightarrow> bool" where
  "isOnContextNodeStart position contextNode =
     (case maybeTokenStart contextNode of
        Some tokenStart \<Rightarrow> isOnTokenPosition position (Token.positionStart tokenStart)
      | None \<Rightarrow> False)"

definition isOnContextNodeEnd ::
  "RightMostLeaf \<Rightarrow> Position \<Rightarrow> ParseContext_Node \<Rightarrow> Collection \<Rightarrow> bool" where
  "isOnContextNodeEnd maybeRightMostLeaf position contextNode c =
     (case maybeRightMostLeaf c (node_id contextNode) of
        None \<Rightarrow> False
      | Some leaf \<Rightarrow> isOnAstNodeEnd position leaf)"

definition isBeforeXorNode :: "Position \<Rightarrow> TXorNode \<Rightarrow> bool \<Rightarrow> bool" where
  "isBeforeXorNode position xorNode isBoundIncluded =
     (case xorNode of
        XorAst node \<Rightarrow> isBeforeAstNode position node isBoundIncluded
      | XorContext node \<Rightarrow> isBeforeContextNode position node isBoundIncluded)"

definition isInXorNode ::
  "RightMostLeaf \<Rightarrow> Position \<Rightarrow> Collection \<Rightarrow> TXorNode \<Rightarrow> bool \<Rightarrow> bool \<Rightarrow> bool" where
  "isInXorNode maybeRightMostLeaf position c xorNode isLowerBoundIncluded isUpperBoundIncluded =
     (case xorNode of
        XorAst node \<Rightarrow> isInAstNode position node isLowerBoundIncluded isUpperBoundIncluded
      | XorContext node \<Rightarrow>
          isInContextNode maybeRightMostLeaf position c node isLowerBoundIncluded
            isUpperBoundIncluded)"

definition isOnXorNodeStart :: "Position \<Rightarrow> TXorNode \<Rightarrow> bool" where
  "isOnXorNodeStart position xorNode =
     (case xorNode of
        XorAst node \<Rightarrow> isOnAstNodeStart position node
      | XorContext node \<Rightarrow> isOnContextNodeStart position node)"

definition isOnXorNodeEnd :: "RightMostLeaf \<Rightarrow> Position \<Rightarrow> TXorNode \<Rightarrow> Collection \<Rightarrow> bool" where
  "isOnXorNodeEnd maybeRightMostLeaf position xorNode c =
     (case xorNode of
        XorAst node \<Rightarrow> isOnAstNodeEnd position node
      | XorContext node \<Rightarrow> isOnContextNodeEnd maybeRightMostLeaf position node c)"

definition isAfterXorNode ::
  "RightMostLeaf \<Rightarrow> Position \<Rightarrow> Collection \<Rightarrow> TXorNode \<Rightarrow> bool \<Rightarrow> bool" where
  "isAfterXorNode maybeRightMostLeaf position c xorNode isBoundIncluded =
     (case xorNode of
        XorAst node \<Rightarrow> isAfterAstNode position node isBoundIncluded
      | XorContext node \<Rightarrow>
          isAfterContextNode maybeRightMostLeaf position c node isBoundIncluded)"

section \<open>Type inspection (tasks.ts, inspectTypeParameter.ts)\<close>

text \<open>
  Modelled from the spec: \<^verbatim>\<open>Type.TType\<close> is declared outside the sources. The spec
  gives the closed family of kinds, "each paired with \<^verbatim>\<open>isNullable: bool\<close> and
  optionally a richer shape"; the shape is the record's extension.
\<close>

datatype TypeKind =
    Any | AnyNonNull | Binary | Date | DateTime | DateTimeZone | Duration | Function
  | List | Logical | Null | Number | Record | Table | Text | Time | Type | Action
  | NoneType | Unknown

record TType =
  kind :: TypeKind
  isNullable :: bool

record CommonSettings =
  settings_locale :: string

text \<open>
  \<^verbatim>\<open>TypeCache\<close> holds two maps keyed by node id, one of types and one of scopes. A
  JavaScript map holds what it is given, so the type of the values is a parameter of each
  map, \<open>'t\<close> for types and \<open>'s\<close> for scopes, and the state's fields are typed by
  what \<^verbatim>\<open>tryScopeType\<close> and \<^verbatim>\<open>tryType\<close> put into them (\<open>deltaTypeById\<close> holds types).
\<close>

record ('t, 's) TypeCache =
  scopeById :: "(nat, 's) js_map"
  typeById :: "(nat, 't) js_map"

record ('g, 'd, 's) InspectTypeState =
  settings :: CommonSettings
  givenTypeById :: "(nat, 'g) js_map"
  deltaTypeById :: "(nat, 'd) js_map"
  nodeIdMapCollection :: Collection
  leafNodeIds :: "nat list"
  scopeById :: "(nat, 's) js_map"

text \<open>
  The \<^verbatim>\<open>state\<close> that \<^verbatim>\<open>tryScopeType\<close> builds; \<^verbatim>\<open>maybeTypeCache?.typeById ?? new
  Map()\<close> is the cache's map, or an empty one without a cache.
\<close>

definition tryScopeType_state ::
  "CommonSettings \<Rightarrow> Collection \<Rightarrow> nat list \<Rightarrow> ('t, 's) TypeCache option
     \<Rightarrow> ('t, 't, 's) InspectTypeState" where
  "tryScopeType_state settings' nodeIdMapCollection' leafNodeIds' maybeTypeCache =
     \<lparr> settings = settings',
       givenTypeById = (case maybeTypeCache of Some cache \<Rightarrow> typeById cache | None \<Rightarrow> []),
       deltaTypeById = [],
       InspectTypeState.nodeIdMapCollection = nodeIdMapCollection',
       InspectTypeState.leafNodeIds = leafNodeIds',
       InspectTypeState.scopeById =
         (case maybeTypeCache of Some cache \<Rightarrow> TypeCache.scopeById cache | None \<Rightarrow> []) \<rparr>"

text \<open>The \<^verbatim>\<open>state\<close> that \<^verbatim>\<open>tryType\<close> builds.\<close>

definition tryType_state ::
  "CommonSettings \<Rightarrow> Collection \<Rightarrow> nat list \<Rightarrow> ('t, 's) TypeCache option
     \<Rightarrow> ('s, 't, 't) InspectTypeState" where
  "tryType_state settings' nodeIdMapCollection' leafNodeIds' maybeTypeCache =
     \<lparr> settings = settings',
       givenTypeById =
         (case maybeTypeCache of Some cache \<Rightarrow> TypeCache.scopeById cache | None \<Rightarrow> []),
       deltaTypeById = [],
       InspectTypeState.nodeIdMapCollection = nodeIdMapCollection',
       InspectTypeState.leafNodeIds = leafNodeIds',
       InspectTypeState.scopeById =
         (case maybeTypeCache of Some cache \<Rightarrow> typeById cache | None \<Rightarrow> []) \<rparr>"

text \<open>
  \<^verbatim>\<open>inspectScopeType\<close> needs \<^verbatim>\<open>assertGetOrCreateScope\<close> and
  \<^verbatim>\<open>getOrFindScopeItemType\<close>, and \<^verbatim>\<open>tryType\<close> needs \<^verbatim>\<open>inspectXor\<close>; they are
  defined outside the sources and are parameters. \<^verbatim>\<open>ensureResult\<close> turns a raised
  error into the error result, which the sum already is.
\<close>

definition tryScopeType ::
  "(('t, 't, 's) InspectTypeState \<Rightarrow> nat \<Rightarrow> error + 'r)
     \<Rightarrow> CommonSettings \<Rightarrow> Collection \<Rightarrow> nat list \<Rightarrow> nat \<Rightarrow> ('t, 's) TypeCache option
     \<Rightarrow> error + 'r" where
  "tryScopeType inspectScopeType settings' nodeIdMapCollection' leafNodeIds' nodeId maybeTypeCache =
     inspectScopeType
       (tryScopeType_state settings' nodeIdMapCollection' leafNodeIds' maybeTypeCache) nodeId"

definition tryType ::
  "(('s, 't, 't) InspectTypeState \<Rightarrow> TXorNode \<Rightarrow> error + 'r)
     \<Rightarrow> CommonSettings \<Rightarrow> Collection \<Rightarrow> nat list \<Rightarrow> nat \<Rightarrow> ('t, 's) TypeCache option
     \<Rightarrow> error + 'r" where
  "tryType inspectXor settings' nodeIdMapCollection' leafNodeIds' nodeId maybeTypeCache =
     (case assertXor nodeIdMapCollection' nodeId of
        Inl e \<Rightarrow> Inl e
      | Inr xorNode \<Rightarrow>
          inspectXor (tryType_state settings' nodeIdMapCollection' leafNodeIds' maybeTypeCache)
            xorNode)"

text \<open>
  \<^verbatim>\<open>inspectTypeFromChildAttributeIndex\<close> is defined outside the sources and is the
  parameter \<open>inspectTypeFromChild\<close>. The object spread copies every field of the
  parameter type, and \<^verbatim>\<open>isNullable\<close> is then overwritten.
\<close>

definition inspectTypeParameter ::
  "(('g, 'd, 's) InspectTypeState \<Rightarrow> TXorNode \<Rightarrow> nat \<Rightarrow> error + 'a TType_scheme)
     \<Rightarrow> ('g, 'd, 's) InspectTypeState \<Rightarrow> TXorNode \<Rightarrow> error + 'a TType_scheme" where
  "inspectTypeParameter inspectTypeFromChild state xorNode =
     (case assertAstNodeKind xorNode Parameter of
        Inl e \<Rightarrow> Inl e
      | Inr _ \<Rightarrow>
          (let maybeOptionalConstant =
                 maybeChildAstByAttributeIndex (InspectTypeState.nodeIdMapCollection state)
                   (xor_id xorNode) 0 (Some [Constant])
           in (case inspectTypeFromChild state xorNode 2 of
                 Inl e \<Rightarrow> Inl e
               | Inr maybeParameterType \<Rightarrow>
                   Inr (maybeParameterType
                          \<lparr>isNullable := maybeOptionalConstant \<noteq> None
                                          \<or> isNullable maybeParameterType\<rparr>))))"

section \<open>Scope inspection (visitNode.ts)\<close>

text \<open>
  Modelled from the spec: the inspection's \<^verbatim>\<open>State\<close>, its result and the nodes it
  reports are declared outside the sources. The spec: the result is "\<^verbatim>\<open>{scope:
  map<name, XorNode>, nodes: sequence of contextual nodes (each, invoke, list, record)
  annotated with positions, maybePositionIdentifier}\<close>"; an invocation records "the name
  of the invoked expression, the argument arity, and the index of the argument the cursor
  sits in". The fields are the ones \<^verbatim>\<open>visitNode.ts\<close> reads and writes.
\<close>

record IInspectedNode =
  maybePositionStart :: "TokenPosition option"
  maybePositionEnd :: "TokenPosition option"

record InvokeArguments =
  numArguments :: nat
  positionArgumentIndex :: nat

record InspectedInvokeExpression = IInspectedNode +
  maybeName :: "string option"
  maybeArguments :: "InvokeArguments option"

datatype Inspection_TNode =
    EachExpressionNode IInspectedNode
  | InvokeExpressionNode InspectedInvokeExpression
  | ListNode IInspectedNode
  | RecordNode IInspectedNode

text \<open>
  A position identifier of kind \<^verbatim>\<open>Local\<close>: its fields \<^verbatim>\<open>identifier\<close> and
  \<^verbatim>\<open>definition\<close> are \<open>localIdentifier\<close> and \<open>localDefinition\<close>.
\<close>

record PositionIdentifier =
  localIdentifier :: Ast_TNode
  localDefinition :: TXorNode

record Inspected =
  scope :: "(string, TXorNode) js_map"
  nodes :: "Inspection_TNode list"
  maybePositionIdentifier :: "PositionIdentifier option"

record Inspection_State =
  result :: Inspected
  nodeIdMapCollection :: Collection
  position :: Position
  maybePositionIdentifier :: "Ast_TNode option"

text \<open>
  Modelled from the spec: the queries of the older \<^verbatim>\<open>NodeIdMap\<close> interface that
  \<^verbatim>\<open>visitNode.ts\<close> calls. \<^verbatim>\<open>maybeChildByAttributeIndex\<close> is the spec's
  \<^verbatim>\<open>maybeChildXorByAttributeIndex\<close>; \<^verbatim>\<open>expectXorChildren\<close> is
  \<^verbatim>\<open>assertIterChildrenXor\<close> of \<^verbatim>\<open>nodeIdMapIterator.ts\<close> (no children when the node
  has no child ids, else every child id must be a node); the expecting variants raise
  where the other returns \<^verbatim>\<open>undefined\<close>; \<^verbatim>\<open>maybeMultipleChildByAttributeRequest\<close>
  follows attribute indices down from a root, one child lookup per drilldown.
\<close>

fun assertIterXor :: "Collection \<Rightarrow> nat list \<Rightarrow> error + TXorNode list" where
  "assertIterXor c [] = Inr []"
| "assertIterXor c (nodeId # nodeIds) =
     (case assertXor c nodeId of
        Inl e \<Rightarrow> Inl e
      | Inr x \<Rightarrow> (case assertIterXor c nodeIds of Inl e \<Rightarrow> Inl e | Inr xs \<Rightarrow> Inr (x # xs)))"

definition assertIterChildrenXor :: "Collection \<Rightarrow> nat \<Rightarrow> error + TXorNode list" where
  "assertIterChildrenXor c parentId =
     (case map_get (childIdsById c) parentId of
        None \<Rightarrow> Inr []
      | Some childIds \<Rightarrow> assertIterXor c childIds)"

definition expectXorChildren :: "Collection \<Rightarrow> nat \<Rightarrow> error + TXorNode list" where
  "expectXorChildren c parentId = assertIterChildrenXor c parentId"

definition maybeChildByAttributeIndex ::
  "Collection \<Rightarrow> nat \<Rightarrow> nat \<Rightarrow> NodeKind list option \<Rightarrow> TXorNode option" where
  "maybeChildByAttributeIndex c parentId attributeIndex maybeChildNodeKinds =
     maybeChildXorByAttributeIndex c parentId attributeIndex maybeChildNodeKinds"

definition expectChildByAttributeIndex ::
  "Collection \<Rightarrow> nat \<Rightarrow> nat \<Rightarrow> NodeKind list option \<Rightarrow> error + TXorNode" where
  "expectChildByAttributeIndex c parentId attributeIndex maybeChildNodeKinds =
     (case maybeChildByAttributeIndex c parentId attributeIndex maybeChildNodeKinds of
        None \<Rightarrow> Inl (InvariantError ''parentId has no child at attributeIndex'')
      | Some x \<Rightarrow> Inr x)"

definition expectParentXorNode :: "Collection \<Rightarrow> nat \<Rightarrow> error + TXorNode" where
  "expectParentXorNode c childId = assertParentXor c childId"

record Drilldown =
  attributeIndex :: nat
  maybeAllowedNodeKinds :: "NodeKind list option"

fun drilldown :: "Collection \<Rightarrow> Drilldown list \<Rightarrow> TXorNode \<Rightarrow> TXorNode option" where
  "drilldown c [] x = Some x"
| "drilldown c (d # ds) x =
     (case maybeChildByAttributeIndex c (xor_id x) (attributeIndex d) (maybeAllowedNodeKinds d) of
        None \<Rightarrow> None
      | Some child \<Rightarrow> drilldown c ds child)"

definition maybeMultipleChildByAttributeRequest ::
  "Collection \<Rightarrow> nat \<Rightarrow> Drilldown \<Rightarrow> Drilldown list \<Rightarrow> TXorNode option" where
  "maybeMultipleChildByAttributeRequest c rootNodeId firstDrilldown drilldowns =
     (case maybeChildByAttributeIndex c rootNodeId (attributeIndex firstDrilldown)
             (maybeAllowedNodeKinds firstDrilldown) of
        None \<Rightarrow> None
      | Some child \<Rightarrow> drilldown c drilldowns child)"

subsection \<open>Helpers at the end of visitNode.ts\<close>

definition expectedNodeKindError :: "TXorNode \<Rightarrow> NodeKind \<Rightarrow> error" where
  "expectedNodeKindError xorNode expected = InvariantError ''expected xorNode to be of kind''"

definition isParentOfNodeKind :: "Collection \<Rightarrow> nat \<Rightarrow> NodeKind \<Rightarrow> bool" where
  "isParentOfNodeKind c childId parentNodeKind =
     (case map_get (parentIdById c) childId of
        None \<Rightarrow> False
      | Some parentNodeId \<Rightarrow>
          (case maybeXor c parentNodeId of
             None \<Rightarrow> False
           | Some parent \<Rightarrow>
               (case parent of
                  XorAst node \<Rightarrow> INode.kind node = parentNodeKind
                | XorContext node \<Rightarrow> INode.kind node = parentNodeKind)))"

definition isTokenPositionOnPosition :: "TokenPosition \<Rightarrow> Position \<Rightarrow> bool" where
  "isTokenPositionOnPosition tokenPosition position' =
     (lineNumber tokenPosition = lineNumber position'
      \<and> lineCodeUnit tokenPosition = lineCodeUnit position')"

definition isTokenPositionBeforePostion :: "TokenPosition \<Rightarrow> Position \<Rightarrow> bool" where
  "isTokenPositionBeforePostion tokenPosition position' =
     (lineNumber tokenPosition < lineNumber position'
      \<or> (lineNumber tokenPosition = lineNumber position'
          \<and> lineCodeUnit tokenPosition < lineCodeUnit position'))"

definition isPositionOnTokenRange :: "Position \<Rightarrow> TokenRange \<Rightarrow> bool" where
  "isPositionOnTokenRange position' tokenRange' =
     (let tokenRangeStart = TokenRange.positionStart tokenRange' in
      if lineNumber tokenRangeStart < lineNumber position'
         \<or> (lineNumber tokenRangeStart = lineNumber position'
             \<and> lineCodeUnit tokenRangeStart > lineCodeUnit position')
      then False
      else (let tokenRangeEnd = TokenRange.positionEnd tokenRange' in
            if lineNumber tokenRangeEnd > lineNumber position'
               \<or> (lineNumber tokenRangeEnd = lineNumber position'
                   \<and> lineCodeUnit tokenRangeEnd < lineCodeUnit position')
            then False
            else True))"

definition isPositionOnXorNode :: "Position \<Rightarrow> TXorNode \<Rightarrow> bool" where
  "isPositionOnXorNode position' xorNode =
     (case xorNode of
        XorAst node \<Rightarrow> isPositionOnTokenRange position' (tokenRange node)
      | XorContext node \<Rightarrow> True)"

definition isTokenPositionOnOrBeforeBeforePostion :: "TokenPosition \<Rightarrow> Position \<Rightarrow> bool" where
  "isTokenPositionOnOrBeforeBeforePostion tokenPosition position' =
     (isTokenPositionOnPosition tokenPosition position'
      \<or> isTokenPositionBeforePostion tokenPosition position')"

definition addToScopeIfNew :: "Inspection_State \<Rightarrow> string \<Rightarrow> TXorNode \<Rightarrow> Inspection_State" where
  "addToScopeIfNew state key xorNode =
     (let scopeMap = scope (result state) in
      if \<not> map_has scopeMap key
      then state\<lparr>result := (result state)\<lparr>scope := map_set scopeMap key xorNode\<rparr>\<rparr>
      else state)"

definition addAstToScopeIfNew :: "Inspection_State \<Rightarrow> string \<Rightarrow> Ast_TNode \<Rightarrow> Inspection_State" where
  "addAstToScopeIfNew state key astNode = addToScopeIfNew state key (XorAst astNode)"

definition addContextToScopeIfNew ::
  "Inspection_State \<Rightarrow> string \<Rightarrow> ParseContext_Node \<Rightarrow> Inspection_State" where
  "addContextToScopeIfNew state key contextNode = addToScopeIfNew state key (XorContext contextNode)"

definition pushNode :: "Inspection_State \<Rightarrow> Inspection_TNode \<Rightarrow> Inspection_State" where
  "pushNode state node = state\<lparr>result := (result state)\<lparr>nodes := nodes (result state) @ [node]\<rparr>\<rparr>"

text \<open>The loop of \<^verbatim>\<open>nodesOnCsvFromCsvArray\<close> stops at the first Csv without a child at 0.\<close>

fun csvNodes :: "Collection \<Rightarrow> TXorNode list \<Rightarrow> TXorNode list" where
  "csvNodes c [] = []"
| "csvNodes c (csvXorNode # csvXorNodes) =
     (case maybeChildByAttributeIndex c (xor_id csvXorNode) 0 None of
        None \<Rightarrow> []
      | Some csvNode \<Rightarrow> csvNode # csvNodes c csvXorNodes)"

definition nodesOnCsvFromCsvArray :: "Collection \<Rightarrow> TXorNode \<Rightarrow> error + TXorNode list" where
  "nodesOnCsvFromCsvArray c csvArrayXorNode =
     (case expectXorChildren c (xor_id csvArrayXorNode) of
        Inl e \<Rightarrow> Inl e
      | Inr csvXorNodes \<Rightarrow> Inr (csvNodes c csvXorNodes))"

definition maybeSetPositionIdentifier ::
  "Inspection_State \<Rightarrow> TXorNode \<Rightarrow> TXorNode \<Rightarrow> error + Inspection_State" where
  "maybeSetPositionIdentifier state keyXorNode valueXorNode =
     (case Inspection_State.maybePositionIdentifier state of
        None \<Rightarrow> Inr state
      | Some positionIdentifier \<Rightarrow>
          if Inspected.maybePositionIdentifier (result state) \<noteq> None then Inr state
          else (case keyXorNode of
                  XorContext node \<Rightarrow> Inl (InvariantError ''keyXorNode should be an Ast node'')
                | XorAst keyAstNode \<Rightarrow>
                    if INode.kind keyAstNode \<noteq> GeneralizedIdentifier
                       \<and> INode.kind keyAstNode \<noteq> NodeKind.Identifier
                    then Inl (InvariantError
                                ''keyAstNode is neither GeneralizedIdentifier nor Identifier'')
                    else if literal keyAstNode = literal positionIdentifier
                    then Inr (state\<lparr>result := (result state)
                                \<lparr>Inspected.maybePositionIdentifier :=
                                   Some \<lparr> localIdentifier = keyAstNode,
                                          localDefinition = valueXorNode \<rparr>\<rparr>\<rparr>)
                    else Inr state))"

subsection \<open>The visitors\<close>

definition xorPositions :: "TXorNode \<Rightarrow> IInspectedNode" where
  "xorPositions xorNode =
     (case xorNode of
        XorAst node \<Rightarrow>
          \<lparr> maybePositionStart = Some (TokenRange.positionStart (tokenRange node)),
            maybePositionEnd = Some (TokenRange.positionEnd (tokenRange node)) \<rparr>
      | XorContext node \<Rightarrow>
          \<lparr> maybePositionStart = map_option Token.positionStart (maybeTokenStart node),
            maybePositionEnd = None \<rparr>)"

definition inspectEachExpression :: "Inspection_State \<Rightarrow> TXorNode \<Rightarrow> error + Inspection_State" where
  "inspectEachExpression state eachExprXorNode =
     Inr (pushNode (addToScopeIfNew state ''_'' eachExprXorNode)
            (EachExpressionNode (xorPositions eachExprXorNode)))"

definition inspectGeneralizedIdentifier ::
  "Inspection_State \<Rightarrow> TXorNode \<Rightarrow> error + Inspection_State" where
  "inspectGeneralizedIdentifier state genIdentifierXorNode =
     (case genIdentifierXorNode of
        XorAst generalizedIdentifier \<Rightarrow>
          if INode.kind generalizedIdentifier \<noteq> GeneralizedIdentifier
          then Inl (expectedNodeKindError genIdentifierXorNode GeneralizedIdentifier)
          else if isTokenPositionOnOrBeforeBeforePostion
                    (TokenRange.positionEnd (tokenRange generalizedIdentifier)) (position state)
          then Inr (addAstToScopeIfNew state (literal generalizedIdentifier) generalizedIdentifier)
          else Inr state
      | XorContext node \<Rightarrow> Inr state)"

definition inspectIdentifier :: "Inspection_State \<Rightarrow> TXorNode \<Rightarrow> error + Inspection_State" where
  "inspectIdentifier state identifierXorNode =
     (case identifierXorNode of
        XorAst identifier' \<Rightarrow>
          if INode.kind identifier' \<noteq> NodeKind.Identifier
          then Inl (expectedNodeKindError identifierXorNode NodeKind.Identifier)
          else if isParentOfNodeKind (Inspection_State.nodeIdMapCollection state)
                    (node_id identifier') IdentifierExpression
          then Inr state
          else if isTokenPositionOnOrBeforeBeforePostion
                    (TokenRange.positionEnd (tokenRange identifier')) (position state)
          then Inr (addAstToScopeIfNew state (literal identifier') identifier')
          else Inr state
      | XorContext node \<Rightarrow> Inr state)"

text \<open>
  In the context case the child found at an attribute index is cast to an AST node and
  its \<^verbatim>\<open>literal\<close> is appended to the key. A child that is still a context node has no
  \<^verbatim>\<open>literal\<close>: the read gives \<^verbatim>\<open>undefined\<close>, and \<^verbatim>\<open>key += undefined\<close> appends
  the text \<^verbatim>\<open>undefined\<close>.
\<close>

definition literalOfCast :: "TXorNode \<Rightarrow> string" where
  "literalOfCast xorNode =
     (case xorNode of XorAst node \<Rightarrow> literal node | XorContext node \<Rightarrow> ''undefined'')"

definition inspectIdentifierExpression ::
  "Inspection_State \<Rightarrow> TXorNode \<Rightarrow> error + Inspection_State" where
  "inspectIdentifierExpression state identifierExprXorNode =
     (case identifierExprXorNode of
        XorAst identifierExpression \<Rightarrow>
          if INode.kind identifierExpression \<noteq> IdentifierExpression
          then Inl (expectedNodeKindError identifierExprXorNode IdentifierExpression)
          else (let key = literal (identifier_node identifierExpression);
                    key' = (case maybeInclusiveConstant identifierExpression of
                              Some inclusiveConstant \<Rightarrow> literal inclusiveConstant @ key
                            | None \<Rightarrow> key)
                in Inr (addAstToScopeIfNew state key' identifierExpression))
      | XorContext node \<Rightarrow>
          (let c = Inspection_State.nodeIdMapCollection state;
               key = (case maybeChildByAttributeIndex c (node_id node) 0 (Some [Constant]) of
                        Some inclusiveConstant \<Rightarrow> literalOfCast inclusiveConstant
                      | None \<Rightarrow> []);
               key' = (case maybeChildByAttributeIndex c (node_id node) 1
                               (Some [NodeKind.Identifier]) of
                         Some identifier' \<Rightarrow> key @ literalOfCast identifier'
                       | None \<Rightarrow> key)
           in if key' \<noteq> [] then Inr (addContextToScopeIfNew state key' node) else Inr state))"

text \<open>
  The first test of \<^verbatim>\<open>inspectInvokeExpression\<close> after the kind: on an AST node, is
  the cursor on the end of the closing parenthesis?
\<close>

definition isOnCloseWrapperConstant :: "Inspection_State \<Rightarrow> TXorNode \<Rightarrow> bool" where
  "isOnCloseWrapperConstant state xorNode =
     (case xorNode of
        XorAst node \<Rightarrow>
          isTokenPositionOnPosition
            (TokenRange.positionEnd (tokenRange (closeWrapperConstant node))) (position state)
      | XorContext node \<Rightarrow> False)"

text \<open>The name of the invoked expression (\<^verbatim>\<open>maybeName\<close>).\<close>

definition invokeExpressionName :: "Inspection_State \<Rightarrow> TXorNode \<Rightarrow> error + string option" where
  "invokeExpressionName state invokeExprXorNode =
     (if xor_maybeAttributeIndex invokeExprXorNode = Some 0
      then (let c = Inspection_State.nodeIdMapCollection state in
            case expectParentXorNode c (xor_id invokeExprXorNode) of
              Inl e \<Rightarrow> Inl e
            | Inr recursiveArrayXorNode \<Rightarrow>
                (case expectParentXorNode c (xor_id recursiveArrayXorNode) of
                   Inl e \<Rightarrow> Inl e
                 | Inr recursiveExprXorNode \<Rightarrow>
                     (case expectChildByAttributeIndex c (xor_id recursiveExprXorNode) 0 None of
                        Inl e \<Rightarrow> Inl e
                      | Inr headXorNode \<Rightarrow>
                          if xor_kind headXorNode = IdentifierExpression
                          then (case headXorNode of
                                  XorContext node \<Rightarrow>
                                    Inl (InvariantError
                                           ''the younger IdentifierExpression sibling should have finished parsing'')
                                | XorAst identifierExpression \<Rightarrow>
                                    Inr (Some
                                      (case maybeInclusiveConstant identifierExpression of
                                         None \<Rightarrow> literal (identifier_node identifierExpression)
                                       | Some inclusiveConstant \<Rightarrow>
                                           literal inclusiveConstant
                                           @ literal (identifier_node identifierExpression))))
                          else Inr None)))
      else Inr None)"

text \<open>
  The loop over the arguments: an identifier expression is inspected (and so enters the
  scope), and the index of an argument the cursor is on is remembered, a later one
  replacing an earlier one.
\<close>

fun inspectArguments ::
  "Inspection_State \<Rightarrow> Position \<Rightarrow> TXorNode list \<Rightarrow> nat \<Rightarrow> nat option
     \<Rightarrow> error + (Inspection_State \<times> nat option)" where
  "inspectArguments state position' [] index maybePositionArgumentIndex =
     Inr (state, maybePositionArgumentIndex)"
| "inspectArguments state position' (argXorNode # argXorNodes) index maybePositionArgumentIndex =
     (case (if xor_kind argXorNode = IdentifierExpression
            then inspectIdentifierExpression state argXorNode else Inr state) of
        Inl e \<Rightarrow> Inl e
      | Inr state' \<Rightarrow>
          inspectArguments state' position' argXorNodes (index + 1)
            (if isPositionOnXorNode position' argXorNode then Some index
             else maybePositionArgumentIndex))"

definition invokeNode ::
  "TXorNode \<Rightarrow> string option \<Rightarrow> InvokeArguments option \<Rightarrow> Inspection_TNode" where
  "invokeNode invokeExprXorNode maybeName' maybeArguments' =
     InvokeExpressionNode
       \<lparr> maybePositionStart = maybePositionStart (xorPositions invokeExprXorNode),
         maybePositionEnd = maybePositionEnd (xorPositions invokeExprXorNode),
         maybeName = maybeName',
         maybeArguments = maybeArguments' \<rparr>"

definition inspectInvokeExpression :: "Inspection_State \<Rightarrow> TXorNode \<Rightarrow> error + Inspection_State" where
  "inspectInvokeExpression state invokeExprXorNode =
     (if xor_kind invokeExprXorNode \<noteq> InvokeExpression
      then Inl (expectedNodeKindError invokeExprXorNode InvokeExpression)
      else if isOnCloseWrapperConstant state invokeExprXorNode then Inr state
      else (case invokeExpressionName state invokeExprXorNode of
              Inl e \<Rightarrow> Inl e
            | Inr maybeName' \<Rightarrow>
                (case maybeChildByAttributeIndex (Inspection_State.nodeIdMapCollection state)
                        (xor_id invokeExprXorNode) 1 (Some [ArrayWrapper]) of
                   None \<Rightarrow> Inr (pushNode state (invokeNode invokeExprXorNode maybeName' None))
                 | Some csvArrayXorNode \<Rightarrow>
                     (case nodesOnCsvFromCsvArray (Inspection_State.nodeIdMapCollection state)
                             csvArrayXorNode of
                        Inl e \<Rightarrow> Inl e
                      | Inr argXorNodes \<Rightarrow>
                          (case inspectArguments state (position state) argXorNodes 0 None of
                             Inl e \<Rightarrow> Inl e
                           | Inr (state', maybePositionArgumentIndex) \<Rightarrow>
                               (let positionArgumentIndex' =
                                      (case maybePositionArgumentIndex of
                                         Some index \<Rightarrow> index
                                       | None \<Rightarrow> 0)
                                in Inr (pushNode state'
                                          (invokeNode invokeExprXorNode maybeName'
                                             (Some \<lparr> numArguments = length argXorNodes,
                                                      positionArgumentIndex =
                                                        positionArgumentIndex' \<rparr>)))))))))"

definition inspectParameter :: "Inspection_State \<Rightarrow> TXorNode \<Rightarrow> error + Inspection_State" where
  "inspectParameter state parameterXorNode =
     (case maybeChildByAttributeIndex (Inspection_State.nodeIdMapCollection state)
             (xor_id parameterXorNode) 1 (Some [NodeKind.Identifier]) of
        None \<Rightarrow> Inr state
      | Some nameXorNode \<Rightarrow> inspectIdentifier state nameXorNode)"

fun inspectParameters :: "Inspection_State \<Rightarrow> TXorNode list \<Rightarrow> error + Inspection_State" where
  "inspectParameters state [] = Inr state"
| "inspectParameters state (parameterXorNode # parameterXorNodes) =
     (case inspectParameter state parameterXorNode of
        Inl e \<Rightarrow> Inl e
      | Inr state' \<Rightarrow> inspectParameters state' parameterXorNodes)"

definition inspectFunctionExpression ::
  "Inspection_State \<Rightarrow> TXorNode \<Rightarrow> error + Inspection_State" where
  "inspectFunctionExpression state fnExpressionXorNode =
     (if xor_kind fnExpressionXorNode \<noteq> FunctionExpression
      then Inl (expectedNodeKindError fnExpressionXorNode FunctionExpression)
      else (case maybeMultipleChildByAttributeRequest
                   (Inspection_State.nodeIdMapCollection state) (xor_id fnExpressionXorNode)
                   \<lparr> attributeIndex = 0, maybeAllowedNodeKinds = Some [ParameterList] \<rparr>
                   [\<lparr> attributeIndex = 1, maybeAllowedNodeKinds = Some [ArrayWrapper] \<rparr>] of
              None \<Rightarrow> Inr state
            | Some csvArrayXorNode \<Rightarrow>
                (case nodesOnCsvFromCsvArray (Inspection_State.nodeIdMapCollection state)
                        csvArrayXorNode of
                   Inl e \<Rightarrow> Inl e
                 | Inr parameterXorNodes \<Rightarrow> inspectParameters state parameterXorNodes)))"

text \<open>The body of the loop of \<^verbatim>\<open>inspectLetExpression\<close>, for one key-value pair.\<close>

definition inspectLetPair :: "Inspection_State \<Rightarrow> TXorNode \<Rightarrow> error + Inspection_State" where
  "inspectLetPair state keyValuePairXorNode =
     (let c = Inspection_State.nodeIdMapCollection state;
          keyValuePairId = xor_id keyValuePairXorNode
      in case maybeChildByAttributeIndex c keyValuePairId 0 (Some [NodeKind.Identifier]) of
           None \<Rightarrow> Inr state
         | Some keyXorNode \<Rightarrow>
             (case maybeChildByAttributeIndex c keyValuePairId 2 None of
                Some valueXorNode \<Rightarrow> maybeSetPositionIdentifier state keyXorNode valueXorNode
              | None \<Rightarrow> Inr state))"

fun inspectLetPairs :: "Inspection_State \<Rightarrow> TXorNode list \<Rightarrow> error + Inspection_State" where
  "inspectLetPairs state [] = Inr state"
| "inspectLetPairs state (keyValuePairXorNode # keyValuePairXorNodes) =
     (case inspectLetPair state keyValuePairXorNode of
        Inl e \<Rightarrow> Inl e
      | Inr state' \<Rightarrow> inspectLetPairs state' keyValuePairXorNodes)"

definition inspectLetExpression :: "Inspection_State \<Rightarrow> TXorNode \<Rightarrow> error + Inspection_State" where
  "inspectLetExpression state letExprXorNode =
     (let c = Inspection_State.nodeIdMapCollection state in
      case maybeChildByAttributeIndex c (xor_id letExprXorNode) 1 (Some [ArrayWrapper]) of
        None \<Rightarrow> Inr state
      | Some csvArrayXorNode \<Rightarrow>
          (case nodesOnCsvFromCsvArray c csvArrayXorNode of
             Inl e \<Rightarrow> Inl e
           | Inr keyValuePairXorNodes \<Rightarrow> inspectLetPairs state keyValuePairXorNodes))"

definition inspectListExpressionOrLiteral ::
  "Inspection_State \<Rightarrow> TXorNode \<Rightarrow> error + Inspection_State" where
  "inspectListExpressionOrLiteral state listXorNode =
     (case listXorNode of
        XorAst list' \<Rightarrow>
          if isTokenPositionOnPosition
               (TokenRange.positionEnd (tokenRange (closeWrapperConstant list'))) (position state)
          then Inr state
          else if isPositionOnTokenRange (position state) (tokenRange list')
          then Inr (pushNode state (ListNode (xorPositions listXorNode)))
          else Inr state
      | XorContext list' \<Rightarrow> Inr (pushNode state (ListNode (xorPositions listXorNode))))"

text \<open>The body of the loop of \<^verbatim>\<open>inspectRecordExpressionOrLiteral\<close>.\<close>

definition inspectRecordPair :: "Inspection_State \<Rightarrow> TXorNode \<Rightarrow> error + Inspection_State" where
  "inspectRecordPair state keyValuePairXorNode =
     (let c = Inspection_State.nodeIdMapCollection state;
          keyValuePairId = xor_id keyValuePairXorNode
      in case maybeChildByAttributeIndex c keyValuePairId 0 (Some [GeneralizedIdentifier]) of
           None \<Rightarrow> Inr state
         | Some keyXorNode \<Rightarrow>
             (case inspectGeneralizedIdentifier state keyXorNode of
                Inl e \<Rightarrow> Inl e
              | Inr state' \<Rightarrow>
                  (case maybeChildByAttributeIndex c keyValuePairId 2 None of
                     Some valueXorNode \<Rightarrow> maybeSetPositionIdentifier state' keyXorNode valueXorNode
                   | None \<Rightarrow> Inr state')))"

fun inspectRecordPairs :: "Inspection_State \<Rightarrow> TXorNode list \<Rightarrow> error + Inspection_State" where
  "inspectRecordPairs state [] = Inr state"
| "inspectRecordPairs state (keyValuePairXorNode # keyValuePairXorNodes) =
     (case inspectRecordPair state keyValuePairXorNode of
        Inl e \<Rightarrow> Inl e
      | Inr state' \<Rightarrow> inspectRecordPairs state' keyValuePairXorNodes)"

text \<open>
  The first half of \<^verbatim>\<open>inspectRecordExpressionOrLiteral\<close>, the \<^verbatim>\<open>switch\<close>: \<open>None\<close>
  is its \<^verbatim>\<open>return\<close>, on the end of the closing bracket.
\<close>

definition inspectRecordNode :: "Inspection_State \<Rightarrow> TXorNode \<Rightarrow> Inspection_State option" where
  "inspectRecordNode state recordXorNode =
     (case recordXorNode of
        XorAst record' \<Rightarrow>
          if isTokenPositionOnPosition
               (TokenRange.positionEnd (tokenRange (closeWrapperConstant record'))) (position state)
          then None
          else if isPositionOnTokenRange (position state) (tokenRange record')
          then Some (pushNode state (RecordNode (xorPositions recordXorNode)))
          else Some state
      | XorContext record' \<Rightarrow> Some (pushNode state (RecordNode (xorPositions recordXorNode))))"

definition inspectRecordExpressionOrLiteral ::
  "Inspection_State \<Rightarrow> TXorNode \<Rightarrow> error + Inspection_State" where
  "inspectRecordExpressionOrLiteral state recordXorNode =
     (case inspectRecordNode state recordXorNode of
        None \<Rightarrow> Inr state
      | Some state' \<Rightarrow>
          (let c = Inspection_State.nodeIdMapCollection state in
           case maybeChildByAttributeIndex c (xor_id recordXorNode) 1 (Some [ArrayWrapper]) of
             None \<Rightarrow> Inr state'
           | Some csvArrayXorNode \<Rightarrow>
               (case nodesOnCsvFromCsvArray c csvArrayXorNode of
                  Inl e \<Rightarrow> Inl e
                | Inr keyValuePairXorNodes \<Rightarrow> inspectRecordPairs state' keyValuePairXorNodes)))"

definition inspectRecursivePrimaryExpression ::
  "Inspection_State \<Rightarrow> TXorNode \<Rightarrow> error + Inspection_State" where
  "inspectRecursivePrimaryExpression state recursivePrimaryExprXorNode =
     (case maybeChildByAttributeIndex (Inspection_State.nodeIdMapCollection state)
             (xor_id recursivePrimaryExprXorNode) 0 None of
        None \<Rightarrow> Inr state
      | Some headXorNode \<Rightarrow>
          if xor_kind headXorNode \<noteq> IdentifierExpression then Inr state
          else inspectIdentifierExpression state headXorNode)"

text \<open>The body of the loop of \<^verbatim>\<open>inspectSection\<close>, for one section member.\<close>

definition inspectSectionMember :: "Inspection_State \<Rightarrow> TXorNode \<Rightarrow> error + Inspection_State" where
  "inspectSectionMember state sectionMember =
     (let c = Inspection_State.nodeIdMapCollection state in
      case maybeChildByAttributeIndex c (xor_id sectionMember) 2
             (Some [IdentifierPairedExpression]) of
        None \<Rightarrow> Inr state
      | Some identifierPairedExprXorNode \<Rightarrow>
          (let identifierPairedExprId = xor_id identifierPairedExprXorNode in
           case maybeChildByAttributeIndex c identifierPairedExprId 0
                  (Some [NodeKind.Identifier]) of
             None \<Rightarrow> Inr state
           | Some nameXorNode \<Rightarrow>
               (case inspectIdentifier state nameXorNode of
                  Inl e \<Rightarrow> Inl e
                | Inr state' \<Rightarrow>
                    (case maybeChildByAttributeIndex c identifierPairedExprId 2 None of
                       Some valueXorNode \<Rightarrow>
                         maybeSetPositionIdentifier state' nameXorNode valueXorNode
                     | None \<Rightarrow> Inr state'))))"

fun inspectSectionMembers :: "Inspection_State \<Rightarrow> TXorNode list \<Rightarrow> error + Inspection_State" where
  "inspectSectionMembers state [] = Inr state"
| "inspectSectionMembers state (sectionMember # sectionMembers) =
     (case inspectSectionMember state sectionMember of
        Inl e \<Rightarrow> Inl e
      | Inr state' \<Rightarrow> inspectSectionMembers state' sectionMembers)"

definition inspectSection :: "Inspection_State \<Rightarrow> TXorNode \<Rightarrow> error + Inspection_State" where
  "inspectSection state sectionXorNode =
     (let c = Inspection_State.nodeIdMapCollection state in
      case maybeChildByAttributeIndex c (xor_id sectionXorNode) 4 (Some [ArrayWrapper]) of
        None \<Rightarrow> Inr state
      | Some sectionMemberArrayXorNode \<Rightarrow>
          (case expectXorChildren c (xor_id sectionMemberArrayXorNode) of
             Inl e \<Rightarrow> Inl e
           | Inr sectionMemberXorNodes \<Rightarrow> inspectSectionMembers state sectionMemberXorNodes))"

definition visitNode :: "TXorNode \<Rightarrow> Inspection_State \<Rightarrow> error + Inspection_State" where
  "visitNode xorNode state =
     (case xor_kind xorNode of
        EachExpression \<Rightarrow> inspectEachExpression state xorNode
      | FunctionExpression \<Rightarrow> inspectFunctionExpression state xorNode
      | NodeKind.Identifier \<Rightarrow> inspectIdentifier state xorNode
      | IdentifierExpression \<Rightarrow> inspectIdentifierExpression state xorNode
      | InvokeExpression \<Rightarrow> inspectInvokeExpression state xorNode
      | LetExpression \<Rightarrow> inspectLetExpression state xorNode
      | ListExpression \<Rightarrow> inspectListExpressionOrLiteral state xorNode
      | ListType \<Rightarrow> inspectListExpressionOrLiteral state xorNode
      | RecordExpression \<Rightarrow> inspectRecordExpressionOrLiteral state xorNode
      | RecordLiteral \<Rightarrow> inspectRecordExpressionOrLiteral state xorNode
      | RecursivePrimaryExpression \<Rightarrow> inspectRecursivePrimaryExpression state xorNode
      | Section \<Rightarrow> inspectSection state xorNode
      | _ \<Rightarrow> Inr state)"

text \<open>
  Modelled from the spec: the walk that calls \<^verbatim>\<open>visitNode\<close> is outside the sources.
  The spec: "walk the ancestry from that leaf to the root, invoking a per-kind scope
  visitor", starting from an empty result. \<open>visitAncestry\<close> visits the nodes of an
  ancestry in their order, the leaf first, and stops at the first error.
\<close>

fun visitAncestry :: "Inspection_State \<Rightarrow> TXorNode list \<Rightarrow> error + Inspection_State" where
  "visitAncestry state [] = Inr state"
| "visitAncestry state (xorNode # ancestry) =
     (case visitNode xorNode state of
        Inl e \<Rightarrow> Inl e
      | Inr state' \<Rightarrow> visitAncestry state' ancestry)"

definition newInspection :: "Collection \<Rightarrow> Position \<Rightarrow> Ast_TNode option \<Rightarrow> Inspection_State" where
  "newInspection c position' maybePositionIdentifier' =
     \<lparr> result = \<lparr> scope = [], nodes = [], Inspected.maybePositionIdentifier = None \<rparr>,
       Inspection_State.nodeIdMapCollection = c,
       position = position',
       Inspection_State.maybePositionIdentifier = maybePositionIdentifier' \<rparr>"

section \<open>What the scope may hold\<close>

text \<open>
  The binder of a scope entry starts strictly after the cursor: the cursor is before the
  start of the AST node, or before the start token of the context node.
\<close>

definition startsAfter :: "TXorNode \<Rightarrow> Position \<Rightarrow> bool" where
  "startsAfter xorNode position' =
     (case xorNode of
        XorAst node \<Rightarrow>
          \<not> isTokenPositionOnOrBeforeBeforePostion
               (TokenRange.positionStart (tokenRange node)) position'
      | XorContext node \<Rightarrow>
          (case maybeTokenStart node of
             None \<Rightarrow> False
           | Some tokenStart \<Rightarrow>
               \<not> isTokenPositionOnOrBeforeBeforePostion (Token.positionStart tokenStart)
                    position'))"

text \<open>A token range whose start is not after its end.\<close>

definition rangeOrdered :: "TokenRange \<Rightarrow> bool" where
  "rangeOrdered r =
     (lineNumber (TokenRange.positionStart r) < lineNumber (TokenRange.positionEnd r)
      \<or> (lineNumber (TokenRange.positionStart r) = lineNumber (TokenRange.positionEnd r)
          \<and> lineCodeUnit (TokenRange.positionStart r) \<le> lineCodeUnit (TokenRange.positionEnd r)))"

text \<open>
  The arguments of an invoke expression, as \<^verbatim>\<open>inspectInvokeExpression\<close> finds them,
  and an identifier expression among the arguments of an invoke expression of a walk.
\<close>

definition argumentsOf :: "Collection \<Rightarrow> TXorNode \<Rightarrow> TXorNode list" where
  "argumentsOf c invokeExprXorNode =
     (case maybeChildByAttributeIndex c (xor_id invokeExprXorNode) 1 (Some [ArrayWrapper]) of
        None \<Rightarrow> []
      | Some csvArrayXorNode \<Rightarrow>
          (case nodesOnCsvFromCsvArray c csvArrayXorNode of
             Inl e \<Rightarrow> []
           | Inr argXorNodes \<Rightarrow> argXorNodes))"

definition isArgumentOnWalk :: "Collection \<Rightarrow> TXorNode list \<Rightarrow> TXorNode \<Rightarrow> bool" where
  "isArgumentOnWalk c walk xorNode =
     (xor_kind xorNode = IdentifierExpression
      \<and> list_ex (\<lambda>w. xor_kind w = InvokeExpression \<and> xorNode \<in> set (argumentsOf c w)) walk)"

text \<open>
  An identifier expression that is the head (the child at attribute index 0) of a
  recursive primary expression of a walk.
\<close>

definition isHeadOnWalk :: "Collection \<Rightarrow> TXorNode list \<Rightarrow> TXorNode \<Rightarrow> bool" where
  "isHeadOnWalk c walk xorNode =
     (xor_kind xorNode = IdentifierExpression
      \<and> list_ex (\<lambda>w. xor_kind w = RecursivePrimaryExpression
                    \<and> maybeChildByAttributeIndex c (xor_id w) 0 None = Some xorNode) walk)"

text \<open>
  The entries the visitors add on a walk: a node of the walk that is an each expression
  or an identifier expression; the head of a recursive primary expression of the walk;
  an identifier-expression argument of an invoke expression of the walk; or an
  \<open>Identifier\<close> or \<open>GeneralizedIdentifier\<close> AST node that ends on or before the cursor.
\<close>

definition scopeEntryAllowed ::
  "Collection \<Rightarrow> Position \<Rightarrow> TXorNode list \<Rightarrow> TXorNode \<Rightarrow> bool" where
  "scopeEntryAllowed c position' walk xorNode =
     ((xorNode \<in> set walk
       \<and> (xor_kind xorNode = EachExpression \<or> xor_kind xorNode = IdentifierExpression))
      \<or> isHeadOnWalk c walk xorNode
      \<or> isArgumentOnWalk c walk xorNode
      \<or> (case xorNode of
            XorAst node \<Rightarrow>
              (INode.kind node = NodeKind.Identifier \<or> INode.kind node = GeneralizedIdentifier)
              \<and> isTokenPositionOnOrBeforeBeforePostion
                    (TokenRange.positionEnd (tokenRange node)) position'
          | XorContext node \<Rightarrow> False))"

definition scopeAllowed :: "TXorNode list \<Rightarrow> Inspection_State \<Rightarrow> bool" where
  "scopeAllowed walk state =
     list_all (\<lambda>entry. scopeEntryAllowed (Inspection_State.nodeIdMapCollection state)
                         (position state) walk (snd entry))
       (scope (result state))"

text \<open>A step keeps the cursor and the node-id map, and an allowed scope stays allowed.\<close>

definition keeps :: "TXorNode list \<Rightarrow> Inspection_State \<Rightarrow> Inspection_State \<Rightarrow> bool" where
  "keeps walk state state' =
     (position state' = position state
      \<and> Inspection_State.nodeIdMapCollection state' = Inspection_State.nodeIdMapCollection state
      \<and> (scopeAllowed walk state \<longrightarrow> scopeAllowed walk state'))"

section \<open>Observations of a parser state\<close>

definition astNodeOf :: "IParserState \<Rightarrow> nat \<Rightarrow> Ast_TNode option" where
  "astNodeOf state k =
     map_get (astNodeById (ParseContext_State.nodeIdMapCollection (contextState state))) k"

definition contextNodeOf :: "IParserState \<Rightarrow> nat \<Rightarrow> ParseContext_Node option" where
  "contextNodeOf state k =
     map_get (contextNodeById (ParseContext_State.nodeIdMapCollection (contextState state))) k"

definition childIdsOf :: "IParserState \<Rightarrow> nat \<Rightarrow> nat list option" where
  "childIdsOf state k =
     map_get (childIdsById (ParseContext_State.nodeIdMapCollection (contextState state))) k"

text \<open>
  The context state that \<^verbatim>\<open>applyFastStateBackup\<close> leaves: the counter reset, then the
  two deletion loops.
\<close>

definition rewoundContextState :: "IParserState \<Rightarrow> FastStateBackup \<Rightarrow> ParseContext_State" where
  "rewoundContextState state backup =
     (let cs0 = (contextState state)\<lparr>idCounter := contextStateIdCounter backup\<rparr>;
          c0 = ParseContext_State.nodeIdMapCollection cs0
      in deleteContextLoop
           (deleteAstLoop cs0 (contextStateIdCounter backup)
              (deletionOrder (newAstNodeIds c0 (contextStateIdCounter backup))))
           (deletionOrder (newContextNodeIds c0 (contextStateIdCounter backup))))"

section \<open>Example data\<close>

definition exPos :: "nat \<Rightarrow> nat \<Rightarrow> TokenPosition" where
  "exPos l c = \<lparr> lineNumber = l, lineCodeUnit = c, codeUnit = c \<rparr>"

definition exToken :: "TokenKind \<Rightarrow> string \<Rightarrow> nat \<Rightarrow> nat \<Rightarrow> Token" where
  "exToken k d c c' = \<lparr> Token.kind = k, data = d, Token.positionStart = exPos 0 c,
                   Token.positionEnd = exPos 0 c' \<rparr>"

definition exSnapshot :: "Token list \<Rightarrow> LexerSnapshot" where
  "exSnapshot ts =
     \<lparr> tokens = ts,
       graphemePositionStartFrom =
         (\<lambda>t. \<lparr> lineNumber = lineNumber (Token.positionStart t),
                 lineCodeUnit = lineCodeUnit (Token.positionStart t),
                 columnNumber = lineCodeUnit (Token.positionStart t) \<rparr>),
       columnNumberStartFrom = (\<lambda>t. lineCodeUnit (Token.positionStart t)) \<rparr>"

definition emptyCollection :: Collection where
  "emptyCollection =
     \<lparr> astNodeById = [], contextNodeById = [], parentIdById = [], childIdsById = [] \<rparr>"

definition exStateAt :: "Token list \<Rightarrow> nat \<Rightarrow> IParserState" where
  "exStateAt ts i =
     \<lparr> lexerSnapshot = exSnapshot ts,
       tokenIndex = i,
       maybeCurrentToken = array_at ts i,
       maybeCurrentTokenKind = map_option Token.kind (array_at ts i),
       contextState = \<lparr> idCounter = 0, nodeIdMapCollection = emptyCollection, leafNodeIds = [] \<rparr>,
       maybeCurrentContextNode = None \<rparr>"

text \<open>The tokens of \<^verbatim>\<open>#table {\<close>.\<close>

definition tableTokens :: "Token list" where
  "tableTokens = [exToken KeywordHashTable ''#table'' 0 6, exToken LeftBrace ''{'' 7 8]"

text \<open>
  Nodes for the examples: a leaf with a literal, a node without one, and a context node.
  Both ends of a token range are on line 0.
\<close>

definition exRange :: "nat \<Rightarrow> nat \<Rightarrow> TokenRange" where
  "exRange c c' = \<lparr> TokenRange.tokenIndexStart = 0, tokenIndexEnd = 0,
                   TokenRange.positionStart = exPos 0 c, TokenRange.positionEnd = exPos 0 c' \<rparr>"

definition exLeaf :: "nat \<Rightarrow> NodeKind \<Rightarrow> nat option \<Rightarrow> nat \<Rightarrow> nat \<Rightarrow> string \<Rightarrow> Ast_Constant" where
  "exLeaf i k a c c' l =
     \<lparr> node_id = i, INode.kind = k, maybeAttributeIndex = a, tokenRange = exRange c c',
       isLeaf = True, literal = l \<rparr>"

definition exNoLeaf :: Ast_Constant where
  "exNoLeaf = exLeaf 0 Constant None 0 0 []"

definition exAst :: "nat \<Rightarrow> NodeKind \<Rightarrow> nat option \<Rightarrow> nat \<Rightarrow> nat \<Rightarrow> Ast_TNode" where
  "exAst i k a c c' =
     \<lparr> node_id = i, INode.kind = k, maybeAttributeIndex = a, tokenRange = exRange c c',
       isLeaf = False, literal = [], identifier_node = exNoLeaf, maybeInclusiveConstant = None,
       closeWrapperConstant = exNoLeaf \<rparr>"

definition exLiteral :: "nat \<Rightarrow> NodeKind \<Rightarrow> nat option \<Rightarrow> nat \<Rightarrow> nat \<Rightarrow> string \<Rightarrow> Ast_TNode" where
  "exLiteral i k a c c' l = (exAst i k a c c')\<lparr>isLeaf := True, literal := l\<rparr>"

definition exContext :: "nat \<Rightarrow> NodeKind \<Rightarrow> nat option \<Rightarrow> Token option \<Rightarrow> ParseContext_Node" where
  "exContext i k a t =
     \<lparr> node_id = i, INode.kind = k, maybeAttributeIndex = a, maybeTokenStart = t,
       ParseContext_Node.tokenIndexStart = 0, attributeCounter = 0 \<rparr>"

text \<open>
  The parsed tree of \<^verbatim>\<open>foo(a, b)\<close>, all on line 0: \<^verbatim>\<open>foo\<close> at 0..3, \<^verbatim>\<open>(\<close> at 3..4,
  \<^verbatim>\<open>a\<close> at 4..5, \<^verbatim>\<open>,\<close> at 5..6, \<^verbatim>\<open>b\<close> at 7..8, \<^verbatim>\<open>)\<close> at 8..9.
\<close>

definition fooCollection :: Collection where
  "fooCollection =
     \<lparr> astNodeById =
         [(1, exAst 1 RecursivePrimaryExpression None 0 9),
          (2, (exAst 2 IdentifierExpression (Some 0) 0 3)
                \<lparr>identifier_node := exLeaf 3 NodeKind.Identifier (Some 1) 0 3 ''foo''\<rparr>),
          (3, exLiteral 3 NodeKind.Identifier (Some 1) 0 3 ''foo''),
          (4, exAst 4 ArrayWrapper (Some 1) 3 9),
          (5, (exAst 5 InvokeExpression (Some 0) 3 9)
                \<lparr>closeWrapperConstant := exLeaf 15 Constant (Some 2) 8 9 '')''\<rparr>),
          (6, exLiteral 6 Constant (Some 0) 3 4 ''(''),
          (7, exAst 7 ArrayWrapper (Some 1) 4 8),
          (8, exAst 8 Csv (Some 0) 4 6),
          (9, (exAst 9 IdentifierExpression (Some 0) 4 5)
                \<lparr>identifier_node := exLeaf 10 NodeKind.Identifier (Some 1) 4 5 ''a''\<rparr>),
          (10, exLiteral 10 NodeKind.Identifier (Some 1) 4 5 ''a''),
          (11, exLiteral 11 Constant (Some 1) 5 6 '',''),
          (12, exAst 12 Csv (Some 1) 7 8),
          (13, (exAst 13 IdentifierExpression (Some 0) 7 8)
                \<lparr>identifier_node := exLeaf 14 NodeKind.Identifier (Some 1) 7 8 ''b''\<rparr>),
          (14, exLiteral 14 NodeKind.Identifier (Some 1) 7 8 ''b''),
          (15, exLiteral 15 Constant (Some 2) 8 9 '')'')],
       contextNodeById = [],
       parentIdById =
         [(2, 1), (3, 2), (4, 1), (5, 4), (6, 5), (7, 5), (8, 7), (9, 8), (10, 9), (11, 8),
          (12, 7), (13, 12), (14, 13), (15, 5)],
       childIdsById =
         [(1, [2, 4]), (2, [3]), (4, [5]), (5, [6, 7, 15]), (7, [8, 12]), (8, [9, 11]),
          (9, [10]), (12, [13]), (13, [14])] \<rparr>"

text \<open>A context node that starts on the token \<^verbatim>\<open>}\<close> at 8..9 and has read nothing.\<close>

definition braceContext :: ParseContext_Node where
  "braceContext = exContext 7 ListExpression (Some 2) (Some (exToken (OtherTokenKind ''RightBrace'') ''}'' 8 9))"

definition noRightMostLeaf :: RightMostLeaf where
  "noRightMostLeaf c nodeId = None"

text \<open>The parameter \<^verbatim>\<open>optional x\<close> of a function: \<^verbatim>\<open>optional\<close> at 1..9, \<^verbatim>\<open>x\<close> at 10..11.\<close>

definition parameterNode :: Ast_TNode where
  "parameterNode = exAst 20 Parameter (Some 0) 1 11"

definition parameterCollection :: Collection where
  "parameterCollection =
     \<lparr> astNodeById =
         [(20, parameterNode),
          (21, exLiteral 21 Constant (Some 0) 1 9 ''optional''),
          (22, exLiteral 22 NodeKind.Identifier (Some 1) 10 11 ''x'')],
       contextNodeById = [],
       parentIdById = [(21, 20), (22, 20)],
       childIdsById = [(20, [21, 22])] \<rparr>"

definition parameterState :: "(TType, TType, string list) InspectTypeState" where
  "parameterState =
     \<lparr> settings = \<lparr>settings_locale = ''en-US''\<rparr>, givenTypeById = [], deltaTypeById = [],
       InspectTypeState.nodeIdMapCollection = parameterCollection,
       InspectTypeState.leafNodeIds = [21, 22], InspectTypeState.scopeById = [] \<rparr>"

text \<open>A stand-in for the inspection of a child: every child is a non-nullable number.\<close>

definition numberOfChild ::
  "(TType, TType, string list) InspectTypeState \<Rightarrow> TXorNode \<Rightarrow> nat \<Rightarrow> error + TType" where
  "numberOfChild state xorNode i = Inr \<lparr>TType.kind = Number, isNullable = False\<rparr>"

definition exampleCache :: "(string, string list) TypeCache" where
  "exampleCache = \<lparr> TypeCache.scopeById = [(1, [''x''])], typeById = [(1, ''number'')] \<rparr>"

text \<open>
  A speculative read and its rewind. Before the read the current context is node 8 and
  the id counter is 8. The read parses \<^verbatim>\<open>nullable number\<close> into the AST node 9 with
  the leaves 10 and 11 (a node enters \<open>astNodeById\<close> when its production ends, the
  children first), as a child of node 8.
\<close>

definition contextEight :: ParseContext_Node where
  "contextEight = exContext 8 FunctionExpression (Some 0) (Some (exToken LeftParenthesis ''('' 0 1))"

definition exStateWith ::
  "nat \<Rightarrow> nat \<Rightarrow> Collection \<Rightarrow> nat list \<Rightarrow> ParseContext_Node option \<Rightarrow> IParserState" where
  "exStateWith i counter c leaves current =
     \<lparr> lexerSnapshot = exSnapshot tableTokens,
       tokenIndex = i,
       maybeCurrentToken = array_at tableTokens i,
       maybeCurrentTokenKind = map_option Token.kind (array_at tableTokens i),
       contextState = \<lparr> idCounter = counter, ParseContext_State.nodeIdMapCollection = c,
                        ParseContext_State.leafNodeIds = leaves \<rparr>,
       maybeCurrentContextNode = current \<rparr>"

definition collectionBefore :: Collection where
  "collectionBefore =
     \<lparr> astNodeById = [], contextNodeById = [(8, contextEight)], parentIdById = [],
       childIdsById = [] \<rparr>"

definition stateBefore :: IParserState where
  "stateBefore = exStateWith 0 8 collectionBefore [] (Some contextEight)"

definition collectionAfterRead :: Collection where
  "collectionAfterRead =
     \<lparr> astNodeById =
         [(10, exLiteral 10 Constant (Some 0) 5 13 ''nullable''),
          (11, exLiteral 11 (OtherNodeKind ''PrimitiveType'') (Some 1) 14 20 ''number''),
          (9, exAst 9 (OtherNodeKind ''NullablePrimitiveType'') (Some 0) 5 20)],
       contextNodeById = [(8, contextEight)],
       parentIdById = [(9, 8), (10, 9), (11, 9)],
       childIdsById = [(8, [9]), (9, [10, 11])] \<rparr>"

definition stateAfterRead :: IParserState where
  "stateAfterRead = exStateWith 2 11 collectionAfterRead [10, 11] (Some contextEight)"








definition fooInvoke :: TXorNode where
  "fooInvoke =
     XorAst ((exAst 5 InvokeExpression (Some 0) 3 9)
               \<lparr>closeWrapperConstant := exLeaf 15 Constant (Some 2) 8 9 '')''\<rparr>)"

definition fooArgumentA :: TXorNode where
  "fooArgumentA =
     XorAst ((exAst 9 IdentifierExpression (Some 0) 4 5)
               \<lparr>identifier_node := exLeaf 10 NodeKind.Identifier (Some 1) 4 5 ''a''\<rparr>)"

definition fooArgumentB :: TXorNode where
  "fooArgumentB =
     XorAst ((exAst 13 IdentifierExpression (Some 0) 7 8)
               \<lparr>identifier_node := exLeaf 14 NodeKind.Identifier (Some 1) 7 8 ''b''\<rparr>)"

definition fooInspection :: "nat \<Rightarrow> Inspection_State" where
  "fooInspection c = newInspection fooCollection \<lparr>lineNumber = 0, lineCodeUnit = c\<rparr> None"

text \<open>The ancestry of the leaf \<^verbatim>\<open>a\<close> (node 10) in \<^verbatim>\<open>foo(a, b)\<close>, the leaf first.\<close>

definition fooAncestry :: "TXorNode list" where
  "fooAncestry = List.map_filter (maybeXor fooCollection) [10, 9, 8, 7, 5, 4, 1]"

definition fooHead :: TXorNode where
  "fooHead =
     XorAst ((exAst 2 IdentifierExpression (Some 0) 0 3)
               \<lparr>identifier_node := exLeaf 3 NodeKind.Identifier (Some 1) 0 3 ''foo''\<rparr>)"

definition scopeOf :: "error + Inspection_State \<Rightarrow> error + (string, TXorNode) js_map" where
  "scopeOf r = (case r of Inl e \<Rightarrow> Inl e | Inr state \<Rightarrow> Inr (scope (result state)))"

section \<open>Properties of the parser state\<close>

text \<open>
  C7. \<^verbatim>\<open>isOnGeneralizedIdentifierStart\<close> returns true exactly when there is a token at
  the index and its kind is \<open>Identifier\<close>, one of the twenty keyword kinds (and, as,
  each, else, error, false, if, in, is, let, meta, not, or, otherwise, section, shared,
  then, true, try, type) or one of the eleven hash-keyword kinds (#binary, #date,
  #datetime, #datetimezone, #duration, #infinity, #nan, #sections, #shared, #table,
  #time). For every other kind, and when the index holds no token, it returns false.
\<close>

theorem isOnGeneralizedIdentifierStart_exactly:
  "isOnGeneralizedIdentifierStart state i =
     (case array_at (tokens (lexerSnapshot state)) i of
        None \<Rightarrow> False
      | Some token \<Rightarrow>
          Token.kind token \<in>
            {TokenKind.Identifier}
            \<union> {KeywordAnd, KeywordAs, KeywordEach, KeywordElse, KeywordError, KeywordFalse,
                KeywordIf, KeywordIn, KeywordIs, KeywordLet, KeywordMeta, KeywordNot, KeywordOr,
                KeywordOtherwise, KeywordSection, KeywordShared, KeywordThen, KeywordTrue,
                KeywordTry, KeywordType}
            \<union> {KeywordHashBinary, KeywordHashDate, KeywordHashDateTime,
                KeywordHashDateTimeZone, KeywordHashDuration, KeywordHashInfinity,
                KeywordHashNan, KeywordHashSections, KeywordHashShared, KeywordHashTable,
                KeywordHashTime})"
proof (cases "array_at (tokens (lexerSnapshot state)) i")
  case None
  then show ?thesis by (simp add: isOnGeneralizedIdentifierStart_def)
next
  case (Some token)
  then show ?thesis
    by (cases "Token.kind token") (simp_all add: isOnGeneralizedIdentifierStart_def)
qed

theorem isOnGeneralizedIdentifierStart_witness:
  "isOnGeneralizedIdentifierStart (exStateAt tableTokens 0) 0
   \<and> \<not> isOnGeneralizedIdentifierStart (exStateAt tableTokens 0) 1
   \<and> \<not> isOnGeneralizedIdentifierStart (exStateAt tableTokens 0) 2"
  using isOnGeneralizedIdentifierStart_exactly [of "exStateAt tableTokens 0" 0]
    isOnGeneralizedIdentifierStart_exactly [of "exStateAt tableTokens 0" 1]
    isOnGeneralizedIdentifierStart_exactly [of "exStateAt tableTokens 0" 2]
  by (simp add: exStateAt_def exSnapshot_def tableTokens_def exToken_def array_at_def)

text \<open>
  C9. In a state whose \<open>tokenIndex\<close> is not past the end of the tokens,
  \<^verbatim>\<open>assertNoMoreTokens\<close> returns normally if and only if \<open>tokenIndex\<close> equals the
  number of tokens of the lexer snapshot; otherwise it raises
  \<open>UnusedTokensRemainError\<close> with the token at \<open>tokenIndex\<close> and that token's grapheme
  position. The parser reads tokens one at a time and asserts a token at every index it
  reads, so \<open>tokenIndex\<close> never exceeds the number of tokens.
\<close>

theorem assertNoMoreTokens_cases:
  assumes "tokenIndex state \<le> length (tokens (lexerSnapshot state))"
  shows "(assertNoMoreTokens state = Inr ()
            \<longleftrightarrow> tokenIndex state = length (tokens (lexerSnapshot state)))
         \<and> (tokenIndex state \<noteq> length (tokens (lexerSnapshot state)) \<longrightarrow>
              assertNoMoreTokens state =
                Inl (UnusedTokensRemainError
                       (tokens (lexerSnapshot state) ! tokenIndex state)
                       (graphemePositionStartFrom (lexerSnapshot state)
                          (tokens (lexerSnapshot state) ! tokenIndex state))))"
  using assms
  by (simp add: assertNoMoreTokens_def assertTokenAt_def array_at_def)

text \<open>
  The tokens of \<^verbatim>\<open>#table {\<close>: at index 2, the number of tokens, the assertion
  passes; at index 1 the brace at column 7 is reported.
\<close>

theorem assertNoMoreTokens_witness:
  "tokenIndex (exStateAt tableTokens 2) \<le> length (tokens (lexerSnapshot (exStateAt tableTokens 2)))
   \<and> tokenIndex (exStateAt tableTokens 1) \<le> length (tokens (lexerSnapshot (exStateAt tableTokens 1)))
   \<and> assertNoMoreTokens (exStateAt tableTokens 2) = Inr ()
   \<and> assertNoMoreTokens (exStateAt tableTokens 1) =
       Inl (UnusedTokensRemainError (exToken LeftBrace ''{'' 7 8)
              \<lparr> lineNumber = 0, lineCodeUnit = 7, columnNumber = 7 \<rparr>)"
  using assertNoMoreTokens_cases [of "exStateAt tableTokens 2"]
    assertNoMoreTokens_cases [of "exStateAt tableTokens 1"]
  by (simp add: exStateAt_def exSnapshot_def tableTokens_def exToken_def exPos_def)

section \<open>Properties of the node-id map queries\<close>

text \<open>
  C6. In \<^verbatim>\<open>maybeNthSiblingXor\<close>, when the node has an attribute index, the target index
  (attribute index plus offset) is not negative, the parent and its child-id list exist,
  and the list has at least as many ids as the target index, the function returns
  \<^verbatim>\<open>undefined\<close>: the guard \<^verbatim>\<open>childIds.length >= attributeIndex\<close> rejects every
  target index that is within the list.
\<close>

theorem maybeNthSiblingXor_in_bounds_undefined:
  assumes "assertXor c rootId = Inr childXorNode"
    and "xor_maybeAttributeIndex childXorNode = Some childAttributeIndex"
    and "0 \<le> int childAttributeIndex + offset"
    and "assertParentXor c rootId = Inr parentXorNode"
    and "map_get (childIdsById c) (xor_id parentXorNode) = Some childIds"
    and "int childAttributeIndex + offset \<le> int (length childIds)"
  shows "maybeNthSiblingXor c rootId offset = Inr None"
  using assms by (simp add: maybeNthSiblingXor_def assertIterChildIds_def)

text \<open>
  In \<^verbatim>\<open>foo(a, b)\<close> the opening parenthesis (node 6, attribute index 0) has the argument
  array (node 7) as its next sibling, and the lookup with offset 1 returns
  \<^verbatim>\<open>undefined\<close>.
\<close>

theorem maybeNthSiblingXor_witness:
  "maybeChildXorByAttributeIndex fooCollection 5 1 None
     = Some (XorAst (exAst 7 ArrayWrapper (Some 1) 4 8))
   \<and> maybeNthSiblingXor fooCollection 6 1 = Inr None"
proof -
  have a: "assertXor fooCollection 6 = Inr (XorAst (exLiteral 6 Constant (Some 0) 3 4 ''(''))"
    by (simp add: assertXor_def maybeXor_def map_get_def fooCollection_def)
  have b: "xor_maybeAttributeIndex (XorAst (exLiteral 6 Constant (Some 0) 3 4 ''('')) = Some 0"
    by (simp add: xor_maybeAttributeIndex_def exLiteral_def exAst_def)
  have p: "assertParentXor fooCollection 6 =
             Inr (XorAst ((exAst 5 InvokeExpression (Some 0) 3 9)
                    \<lparr>closeWrapperConstant := exLeaf 15 Constant (Some 2) 8 9 '')''\<rparr>))"
    by (simp add: assertParentXor_def assertXor_def maybeXor_def map_get_def fooCollection_def)
  have k: "map_get (childIdsById fooCollection)
             (xor_id (XorAst ((exAst 5 InvokeExpression (Some 0) 3 9)
                    \<lparr>closeWrapperConstant := exLeaf 15 Constant (Some 2) 8 9 '')''\<rparr>)))
           = Some [6, 7, 15]"
    by (simp add: xor_id_def exAst_def map_get_def fooCollection_def)
  have s: "maybeChildXorByAttributeIndex fooCollection 5 1 None
             = Some (XorAst (exAst 7 ArrayWrapper (Some 1) 4 8))"
    by (simp add: maybeChildXorByAttributeIndex_def map_get_def fooCollection_def
        List.map_filter_def maybeXor_def xor_maybeAttributeIndex_def exLiteral_def exAst_def)
  from maybeNthSiblingXor_in_bounds_undefined [OF a b _ p k, of 1] s
  show ?thesis by simp
qed

text \<open>
  Past the guard the target index is above the length of the child-id list, where the
  array read gives \<^verbatim>\<open>undefined\<close>: the lookup returns no sibling for any input.
\<close>

lemma maybeNthSiblingXor_returns_no_sibling:
  "maybeNthSiblingXor c rootId offset \<noteq> Inr (Some sibling)"
  by (auto simp: maybeNthSiblingXor_def Let_def array_at_def
      split: sum.splits option.splits if_splits)

section \<open>Properties of the position predicates\<close>

text \<open>
  C4, as amended. For a context node whose rightmost leaf is absent,
  \<^verbatim>\<open>isAfterXorNode\<close> and \<^verbatim>\<open>isInXorNode\<close> fall back on the token the node started on.
  With no start token either, "after" is false and "in" is true at every position. With
  a start token, "after" is \<^verbatim>\<open>isAfterTokenPosition\<close> against that token's end and "in"
  is \<^verbatim>\<open>isInToken\<close> of that token: the node ends where its start token ends.
\<close>

theorem context_without_leaf_after_in:
  assumes "maybeRightMostLeaf c (node_id contextNode) = None"
  shows "isAfterXorNode maybeRightMostLeaf cursor c (XorContext contextNode) isBoundIncluded
           = (case maybeTokenStart contextNode of
                None \<Rightarrow> False
              | Some tokenStart \<Rightarrow>
                  isAfterTokenPosition cursor (Token.positionEnd tokenStart) isBoundIncluded)
         \<and> isInXorNode maybeRightMostLeaf cursor c (XorContext contextNode)
             isLowerBoundIncluded isUpperBoundIncluded
           = (case maybeTokenStart contextNode of
                None \<Rightarrow> True
              | Some tokenStart \<Rightarrow>
                  isInToken cursor tokenStart isLowerBoundIncluded isUpperBoundIncluded)"
  using assms
  by (simp add: isAfterXorNode_def isInXorNode_def isInContextNode_def isAfterContextNode_def
      isBeforeContextNode_def isInToken_def split: option.splits)

theorem context_without_leaf_witness:
  "isAfterXorNode noRightMostLeaf \<lparr>lineNumber = 0, lineCodeUnit = 8\<rparr> fooCollection
      (XorContext (exContext 7 ListExpression (Some 2) None)) True = False
   \<and> isInXorNode noRightMostLeaf \<lparr>lineNumber = 0, lineCodeUnit = 8\<rparr> fooCollection
      (XorContext (exContext 7 ListExpression (Some 2) None)) True True = True"
proof -
  have "noRightMostLeaf fooCollection (node_id (exContext 7 ListExpression (Some 2) None)) = None"
    by (simp add: noRightMostLeaf_def)
  with context_without_leaf_after_in
         [where maybeRightMostLeaf = noRightMostLeaf and c = fooCollection
            and contextNode = "exContext 7 ListExpression (Some 2) None"
            and cursor = "\<lparr>lineNumber = 0, lineCodeUnit = 8\<rparr>"
            and isBoundIncluded = True and isLowerBoundIncluded = True
            and isUpperBoundIncluded = True]
  show ?thesis by (simp add: exContext_def)
qed

text \<open>
  The claim as stated fails for a context node that has a start token and no leaf. The
  node \<open>braceContext\<close> starts on the token at 8..9 of line 0; the cursor on line 5 is
  at or after the node's start, and still it is "after" the node and not "in" it.
\<close>

theorem context_without_leaf_counterexample:
  "noRightMostLeaf emptyCollection (node_id braceContext) = None
   \<and> \<not> isBeforeXorNode \<lparr>lineNumber = 5, lineCodeUnit = 0\<rparr> (XorContext braceContext) True
   \<and> isAfterXorNode noRightMostLeaf \<lparr>lineNumber = 5, lineCodeUnit = 0\<rparr> emptyCollection
       (XorContext braceContext) False
   \<and> \<not> isInXorNode noRightMostLeaf \<lparr>lineNumber = 5, lineCodeUnit = 0\<rparr> emptyCollection
       (XorContext braceContext) True True"
  by (simp add: noRightMostLeaf_def braceContext_def exContext_def exToken_def exPos_def
      isBeforeXorNode_def isBeforeContextNode_def isBeforeTokenPosition_def
      isAfterXorNode_def isAfterContextNode_def isAfterTokenPosition_def
      isInXorNode_def isInContextNode_def)

section \<open>Properties of the type inspection\<close>

text \<open>
  C5. The state of each function is local to it; what the function has initialised it
  to is what it hands on, \<^verbatim>\<open>tryType\<close> to \<^verbatim>\<open>inspectXor\<close> and \<^verbatim>\<open>tryScopeType\<close> to
  \<^verbatim>\<open>inspectScopeType\<close>, whatever these two do with it. With a type cache supplied,
  the state that \<^verbatim>\<open>tryType\<close> hands on has \<open>givenTypeById\<close> from the cache's
  \<open>scopeById\<close> and \<open>scopeById\<close> from the cache's \<open>typeById\<close>, while the state that
  \<^verbatim>\<open>tryScopeType\<close> hands on has \<open>givenTypeById\<close> from \<open>typeById\<close> and \<open>scopeById\<close>
  from \<open>scopeById\<close>.
\<close>

theorem tryType_swapped:
  assumes "assertXor c nodeId = Inr xorNode"
  shows "tryType inspectXor s c l nodeId (Some cache) =
           inspectXor
             \<lparr> settings = s,
               givenTypeById = TypeCache.scopeById cache,
               deltaTypeById = [],
               InspectTypeState.nodeIdMapCollection = c,
               InspectTypeState.leafNodeIds = l,
               InspectTypeState.scopeById = typeById cache \<rparr>
             xorNode
         \<and> tryScopeType inspectScopeType s c l nodeId (Some cache) =
             inspectScopeType
               \<lparr> settings = s,
                 givenTypeById = typeById cache,
                 deltaTypeById = [],
                 InspectTypeState.nodeIdMapCollection = c,
                 InspectTypeState.leafNodeIds = l,
                 InspectTypeState.scopeById = TypeCache.scopeById cache \<rparr>
               nodeId"
  using assms
  by (simp add: tryType_def tryType_state_def tryScopeType_def tryScopeType_state_def)

text \<open>
  With the two maps of the state as the value returned, the cache comes back from
  \<^verbatim>\<open>tryType\<close> with its maps exchanged and from \<^verbatim>\<open>tryScopeType\<close> as it is.
\<close>

theorem tryType_swapped_witness:
  "assertXor parameterCollection 20 = Inr (XorAst parameterNode)
   \<and> tryType (\<lambda>state xorNode. Inr (givenTypeById state, InspectTypeState.scopeById state))
       \<lparr>settings_locale = ''en-US''\<rparr> parameterCollection [21, 22] 20 (Some exampleCache)
     = Inr ([(1, [''x''])], [(1, ''number'')])
   \<and> tryScopeType (\<lambda>state nodeId. Inr (givenTypeById state, InspectTypeState.scopeById state))
       \<lparr>settings_locale = ''en-US''\<rparr> parameterCollection [21, 22] 20 (Some exampleCache)
     = Inr ([(1, ''number'')], [(1, [''x''])])"
proof -
  have x: "assertXor parameterCollection 20 = Inr (XorAst parameterNode)"
    by (simp add: assertXor_def maybeXor_def parameterCollection_def map_get_def)
  from tryType_swapped
         [where inspectXor =
                  "\<lambda>state xorNode. Inr (givenTypeById state, InspectTypeState.scopeById state)"
            and inspectScopeType =
                  "\<lambda>state nodeId. Inr (givenTypeById state, InspectTypeState.scopeById state)"
            and s = "\<lparr>settings_locale = ''en-US''\<rparr>" and l = "[21, 22]"
            and cache = exampleCache, OF x]
       x
  show ?thesis by (simp add: exampleCache_def)
qed

text \<open>
  C8. For a \<open>Parameter\<close> AST node, the type that \<^verbatim>\<open>inspectTypeParameter\<close> returns has
  \<open>isNullable\<close> equal to the disjunction of (a) an AST child of kind \<open>Constant\<close> at
  attribute index 0 being present and (b) \<open>isNullable\<close> of the type inspected from the
  child at attribute index 2. The other fields are those of the inspected type.
\<close>

theorem inspectTypeParameter_isNullable:
  assumes "INode.kind node = Parameter"
    and "inspectTypeFromChild state (XorAst node) 2 = Inr parameterType"
  shows "\<exists>t. inspectTypeParameter inspectTypeFromChild state (XorAst node) = Inr t
           \<and> isNullable t =
               (maybeChildAstByAttributeIndex (InspectTypeState.nodeIdMapCollection state)
                  (node_id node) 0 (Some [Constant]) \<noteq> None
                \<or> isNullable parameterType)
           \<and> TType.kind t = TType.kind parameterType
           \<and> TType.more t = TType.more parameterType"
  using assms
  by (simp add: inspectTypeParameter_def assertAstNodeKind_def xor_kind_def xor_id_def)

text \<open>
  The parameter \<^verbatim>\<open>optional x\<close> with a non-nullable declared type: the constant at
  attribute index 0 alone makes the parameter nullable.
\<close>

theorem inspectTypeParameter_witness:
  "maybeChildAstByAttributeIndex parameterCollection 20 0 (Some [Constant])
     = Some (exLiteral 21 Constant (Some 0) 1 9 ''optional'')
   \<and> inspectTypeParameter numberOfChild parameterState (XorAst parameterNode)
     = Inr \<lparr>TType.kind = Number, isNullable = True\<rparr>"
proof -
  have k: "INode.kind parameterNode = Parameter"
    by (simp add: parameterNode_def exAst_def)
  have t: "numberOfChild parameterState (XorAst parameterNode) 2
             = Inr \<lparr>TType.kind = Number, isNullable = False\<rparr>"
    by (simp add: numberOfChild_def)
  have c: "maybeChildAstByAttributeIndex parameterCollection 20 0 (Some [Constant])
             = Some (exLiteral 21 Constant (Some 0) 1 9 ''optional'')"
    by (simp add: maybeChildAstByAttributeIndex_def maybeChildXorByAttributeIndex_def
        parameterCollection_def map_get_def List.map_filter_def maybeXor_def
        xor_maybeAttributeIndex_def xor_kind_def exLiteral_def exAst_def parameterNode_def)
  have i: "node_id parameterNode = 20"
    by (simp add: parameterNode_def exAst_def)
  have n: "InspectTypeState.nodeIdMapCollection parameterState = parameterCollection"
    by (simp add: parameterState_def)
  from inspectTypeParameter_isNullable
         [where node = parameterNode and inspectTypeFromChild = numberOfChild
            and state = parameterState
            and parameterType = "\<lparr>TType.kind = Number, isNullable = False\<rparr>", OF k t]
       c i n
  show ?thesis by auto
qed

section \<open>Properties of the fast state backup\<close>

lemma map_get_map_delete:
  "map_get (map_delete m k) k' = (if k' = k then None else map_get m k')"
  by (induction m) (auto simp: map_get_def map_delete_def)

lemma map_get_not_key: "k \<notin> set (map_keys m) \<Longrightarrow> map_get m k = None"
  by (induction m) (auto simp: map_get_def map_keys_def)

lemma deleteAst_astNodeById:
  "map_get (astNodeById (ParseContext_State.nodeIdMapCollection (deleteAst cs n f))) k
     = (if k = n then None
        else map_get (astNodeById (ParseContext_State.nodeIdMapCollection cs)) k)"
  by (simp add: deleteAst_def Let_def unlinkFromParent_def map_get_map_delete
      split: option.splits)

lemma deleteAst_contextNodeById:
  "contextNodeById (ParseContext_State.nodeIdMapCollection (deleteAst cs n f))
     = contextNodeById (ParseContext_State.nodeIdMapCollection cs)"
  by (simp add: deleteAst_def Let_def unlinkFromParent_def split: option.splits)

lemma deleteAst_idCounter: "idCounter (deleteAst cs n f) = idCounter cs"
  by (simp add: deleteAst_def Let_def)

lemma deleteContext_contextNodeById:
  "map_get (contextNodeById (ParseContext_State.nodeIdMapCollection (deleteContext cs n))) k
     = (if k = n then None
        else map_get (contextNodeById (ParseContext_State.nodeIdMapCollection cs)) k)"
  by (simp add: deleteContext_def Let_def unlinkFromParent_def map_get_map_delete
      split: option.splits)

lemma deleteContext_astNodeById:
  "astNodeById (ParseContext_State.nodeIdMapCollection (deleteContext cs n))
     = astNodeById (ParseContext_State.nodeIdMapCollection cs)"
  by (simp add: deleteContext_def Let_def unlinkFromParent_def split: option.splits)

lemma deleteContext_idCounter: "idCounter (deleteContext cs n) = idCounter cs"
  by (simp add: deleteContext_def Let_def)

lemma deleteAstLoop_astNodeById:
  "map_get (astNodeById (ParseContext_State.nodeIdMapCollection (deleteAstLoop cs b ids))) k
     = (if k \<in> set ids then None
        else map_get (astNodeById (ParseContext_State.nodeIdMapCollection cs)) k)"
  by (induction ids arbitrary: cs) (simp_all add: deleteAst_astNodeById)

lemma deleteAstLoop_contextNodeById:
  "contextNodeById (ParseContext_State.nodeIdMapCollection (deleteAstLoop cs b ids))
     = contextNodeById (ParseContext_State.nodeIdMapCollection cs)"
  by (induction ids arbitrary: cs) (simp_all add: deleteAst_contextNodeById)

lemma deleteAstLoop_idCounter: "idCounter (deleteAstLoop cs b ids) = idCounter cs"
  by (induction ids arbitrary: cs) (simp_all add: deleteAst_idCounter)

lemma deleteContextLoop_contextNodeById:
  "map_get (contextNodeById (ParseContext_State.nodeIdMapCollection (deleteContextLoop cs ids))) k
     = (if k \<in> set ids then None
        else map_get (contextNodeById (ParseContext_State.nodeIdMapCollection cs)) k)"
  by (induction ids arbitrary: cs) (simp_all add: deleteContext_contextNodeById)

lemma deleteContextLoop_astNodeById:
  "astNodeById (ParseContext_State.nodeIdMapCollection (deleteContextLoop cs ids))
     = astNodeById (ParseContext_State.nodeIdMapCollection cs)"
  by (induction ids arbitrary: cs) (simp_all add: deleteContext_astNodeById)

lemma deleteContextLoop_idCounter: "idCounter (deleteContextLoop cs ids) = idCounter cs"
  by (induction ids arbitrary: cs) (simp_all add: deleteContext_idCounter)

lemma set_js_insert: "set (js_insert x ys) = insert x (set ys)"
  by (induction ys) auto

lemma set_deletionOrder: "set (deletionOrder ids) = set ids"
  by (induction ids) (simp_all add: deletionOrder_def js_sort_def set_js_insert)

lemma rewound_astNodeById:
  "map_get (astNodeById (ParseContext_State.nodeIdMapCollection (rewoundContextState state backup))) k
     = (if k > contextStateIdCounter backup then None
        else map_get (astNodeById (ParseContext_State.nodeIdMapCollection (contextState state))) k)"
  by (auto simp: rewoundContextState_def Let_def deleteContextLoop_astNodeById
      deleteAstLoop_astNodeById set_deletionOrder newAstNodeIds_def map_get_not_key)

lemma rewound_contextNodeById:
  "map_get (contextNodeById (ParseContext_State.nodeIdMapCollection (rewoundContextState state backup))) k
     = (if k > contextStateIdCounter backup then None
        else map_get (contextNodeById (ParseContext_State.nodeIdMapCollection (contextState state))) k)"
  by (auto simp: rewoundContextState_def Let_def deleteContextLoop_contextNodeById
      deleteAstLoop_contextNodeById set_deletionOrder newContextNodeIds_def map_get_not_key)

lemma rewound_idCounter:
  "idCounter (rewoundContextState state backup) = contextStateIdCounter backup"
  by (simp add: rewoundContextState_def Let_def deleteContextLoop_idCounter
      deleteAstLoop_idCounter)

lemma applyFastStateBackup_unfold:
  "applyFastStateBackup state backup =
     (case truthyId (maybeContextNodeId backup) of
        Some nodeId \<Rightarrow>
          (case map_get (contextNodeById (ParseContext_State.nodeIdMapCollection
                                           (rewoundContextState state backup))) nodeId of
             None \<Rightarrow> Inl (InvariantError ''nodeId is not in contextNodeById'')
           | Some node \<Rightarrow>
               Inr (state\<lparr>tokenIndex := backup_tokenIndex backup,
                          maybeCurrentToken :=
                            array_at (tokens (lexerSnapshot state)) (backup_tokenIndex backup),
                          maybeCurrentTokenKind :=
                            map_option Token.kind
                              (array_at (tokens (lexerSnapshot state)) (backup_tokenIndex backup)),
                          contextState := rewoundContextState state backup,
                          maybeCurrentContextNode := Some node\<rparr>))
      | None \<Rightarrow>
          Inr (state\<lparr>tokenIndex := backup_tokenIndex backup,
                     maybeCurrentToken :=
                       array_at (tokens (lexerSnapshot state)) (backup_tokenIndex backup),
                     maybeCurrentTokenKind :=
                       map_option Token.kind
                         (array_at (tokens (lexerSnapshot state)) (backup_tokenIndex backup)),
                     contextState := rewoundContextState state backup,
                     maybeCurrentContextNode := None\<rparr>))"
  by (simp add: applyFastStateBackup_def rewoundContextState_def Let_def assertContext_def
      split: option.splits)

text \<open>
  Whatever the order of the two loops, the rewind drops exactly the entries with an id
  above the backup counter from \<open>astNodeById\<close> and from \<open>contextNodeById\<close>, and
  leaves the other entries as they are.
\<close>

lemma applyFastStateBackup_drops_new:
  assumes "applyFastStateBackup state backup = Inr state'"
  shows "astNodeOf state' k
           = (if k > contextStateIdCounter backup then None else astNodeOf state k)"
    and "contextNodeOf state' k
           = (if k > contextStateIdCounter backup then None else contextNodeOf state k)"
    and "idCounter (contextState state') = contextStateIdCounter backup"
    and "tokenIndex state' = backup_tokenIndex backup"
  using assms
  by (auto simp: applyFastStateBackup_unfold astNodeOf_def contextNodeOf_def
      rewound_astNodeById rewound_contextNodeById rewound_idCounter
      split: option.splits)

lemma map_of_replace_other:
  "\<forall>entry \<in> set xs. snd entry = old \<longrightarrow> fst entry \<noteq> k
     \<Longrightarrow> map_of (map (\<lambda>kv. if snd kv = old then (fst kv, new) else kv) xs) k = map_of xs k"
  by (induction xs) auto

text \<open>
  \<^verbatim>\<open>incrementAttributeCounter\<close> is the one function of \<^verbatim>\<open>IParserStateUtils.ts\<close>
  that writes to a context node. When the current context node was minted after a
  backup (its id is above the backup's counter) and every context node is registered
  under its own id, the entries with ids up to the counter are as they were.
\<close>

lemma incrementAttributeCounter_new_node:
  assumes "maybeCurrentContextNode S = Some n" and "counter < node_id n"
    and "\<forall>entry \<in> set (contextNodeById (ParseContext_State.nodeIdMapCollection (contextState S))).
           node_id (snd entry) = fst entry"
  shows "\<exists>S'. incrementAttributeCounter S = Inr S'
           \<and> tokenIndex S' = tokenIndex S
           \<and> idCounter (contextState S') = idCounter (contextState S)
           \<and> (\<forall>k \<le> counter.
                 astNodeOf S' k = astNodeOf S k \<and> contextNodeOf S' k = contextNodeOf S k)"
proof -
  have "\<forall>entry \<in> set (contextNodeById (ParseContext_State.nodeIdMapCollection (contextState S))).
          snd entry = n \<longrightarrow> fst entry \<noteq> k"
    if "k \<le> counter" for k
    using that assms(2,3) by auto
  with assms(1) show ?thesis
    by (simp add: incrementAttributeCounter_def Let_def astNodeOf_def contextNodeOf_def
        map_get_def map_of_replace_other)
qed





text \<open>
  C3, at a failing input. The rewind of \<open>stateAfterRead\<close> to the backup of
  \<open>stateBefore\<close> (counter 8) has the new AST ids 10, 11 and 9. The loop visits them in
  the order 9, 11, 10, the reverse of the order of their decimal strings, not in
  descending numeric order. Node 9 is flagged as having a parent that will be deleted,
  though its parent 8 is not above the counter and stays; so node 9 is deleted and the
  child ids of node 8 still list it.
\<close>

theorem applyFastStateBackup_failing_input:
  "deletionOrder (newAstNodeIds collectionAfterRead 8) = [9, 11, 10]
   \<and> parentWillBeDeleted collectionAfterRead 8 9
   \<and> (\<exists>S''. applyFastStateBackup stateAfterRead (fastStateBackup stateBefore) = Inr S''
         \<and> contextNodeOf S'' 8 = Some contextEight
         \<and> astNodeOf S'' 9 = None
         \<and> childIdsOf S'' 8 = Some [9])"
  by (simp add: applyFastStateBackup_def fastStateBackup_def
      stateBefore_def stateAfterRead_def exStateWith_def collectionBefore_def
      collectionAfterRead_def contextEight_def
      exContext_def Let_def truthyId_def newAstNodeIds_def
      newContextNodeIds_def map_keys_def deletionOrder_def js_sort_def assertContext_def
      map_get_def contextNodeOf_def astNodeOf_def childIdsOf_def parentWillBeDeleted_def
      deleteAst_def deleteContext_def unlinkFromParent_def map_delete_def map_set_def
      map_has_def toString.simps)

section \<open>Properties of the scope inspection\<close>

lemma addToScopeIfNew_frame:
  "nodes (result (addToScopeIfNew state key x)) = nodes (result state)"
  "position (addToScopeIfNew state key x) = position state"
  "Inspection_State.nodeIdMapCollection (addToScopeIfNew state key x)
     = Inspection_State.nodeIdMapCollection state"
  by (simp_all add: addToScopeIfNew_def Let_def)

lemma inspectIdentifierExpression_returns:
  assumes "xor_kind x = IdentifierExpression"
  shows "\<exists>state'. inspectIdentifierExpression state x = Inr state'
           \<and> nodes (result state') = nodes (result state)
           \<and> position state' = position state
           \<and> Inspection_State.nodeIdMapCollection state'
               = Inspection_State.nodeIdMapCollection state"
proof (cases x)
  case (XorAst node)
  with assms show ?thesis
    by (simp add: inspectIdentifierExpression_def xor_kind_def Let_def addAstToScopeIfNew_def
        addToScopeIfNew_frame)
next
  case (XorContext node)
  then show ?thesis
    by (simp add: inspectIdentifierExpression_def Let_def addContextToScopeIfNew_def
        addToScopeIfNew_frame)
qed

lemma inspectArguments_returns:
  "\<exists>state' r. inspectArguments state p args index acc = Inr (state', r)
      \<and> nodes (result state') = nodes (result state)
      \<and> ((\<forall>arg \<in> set args. \<not> isPositionOnXorNode p arg) \<longrightarrow> r = acc)"
proof (induction args arbitrary: state index acc)
  case Nil
  show ?case by simp
next
  case (Cons arg args)
  show ?case
  proof (cases "xor_kind arg = IdentifierExpression")
    case True
    from inspectIdentifierExpression_returns [OF True, of state]
    obtain state1 where s: "inspectIdentifierExpression state arg = Inr state1"
      "nodes (result state1) = nodes (result state)" by blast
    from Cons.IH [of state1 "index + 1"
        "if isPositionOnXorNode p arg then Some index else acc"]
    show ?thesis using True s by auto
  next
    case False
    from Cons.IH [of state "index + 1"
        "if isPositionOnXorNode p arg then Some index else acc"]
    show ?thesis using False by auto
  qed
qed

text \<open>
  C10, as amended. For an invoke expression with an argument \<open>ArrayWrapper\<close> child,
  when the cursor is not on the end of the closing parenthesis and the lookup of the
  invoked name raises no error, the inspection returns and reports one more node, whose
  \<open>maybeArguments\<close> has the number of arguments and \<open>positionArgumentIndex = 0\<close>
  whenever the cursor is on no argument after the first: the index is 0 for a cursor on
  no argument at all, as it is for a cursor on the first argument only.
\<close>

theorem inspectInvokeExpression_index_zero:
  assumes "xor_kind x = InvokeExpression"
    and "\<not> isOnCloseWrapperConstant state x"
    and "invokeExpressionName state x = Inr name"
    and "maybeChildByAttributeIndex (Inspection_State.nodeIdMapCollection state) (xor_id x) 1
           (Some [ArrayWrapper]) = Some csvArrayXorNode"
    and "nodesOnCsvFromCsvArray (Inspection_State.nodeIdMapCollection state) csvArrayXorNode
           = Inr argXorNodes"
    and "\<forall>arg \<in> set (tl argXorNodes). \<not> isPositionOnXorNode (position state) arg"
  shows "\<exists>state'. inspectInvokeExpression state x = Inr state'
           \<and> nodes (result state')
               = nodes (result state)
                 @ [invokeNode x name
                      (Some \<lparr> numArguments = length argXorNodes, positionArgumentIndex = 0 \<rparr>)]"
proof -
  obtain state1 r where run:
    "inspectArguments state (position state) argXorNodes 0 None = Inr (state1, r)"
    "nodes (result state1) = nodes (result state)"
    using inspectArguments_returns [of state "position state" argXorNodes 0 None] by blast
  have "r = None \<or> r = Some 0"
  proof (cases argXorNodes)
    case Nil
    with run show ?thesis by simp
  next
    case (Cons arg args)
    have rest: "\<forall>a \<in> set args. \<not> isPositionOnXorNode (position state) a"
      using assms(6) Cons by simp
    obtain state0 where first:
      "(if xor_kind arg = IdentifierExpression
        then inspectIdentifierExpression state arg else Inr state) = Inr state0"
      using inspectIdentifierExpression_returns [of arg state] by (cases "xor_kind arg = IdentifierExpression") auto
    from inspectArguments_returns [of state0 "position state" args 1
        "if isPositionOnXorNode (position state) arg then Some 0 else None"] rest
    obtain state2 where
      "inspectArguments state0 (position state) args 1
         (if isPositionOnXorNode (position state) arg then Some 0 else None)
       = Inr (state2, if isPositionOnXorNode (position state) arg then Some 0 else None)"
      by blast
    with first run Cons show ?thesis by (auto split: if_splits)
  qed
  then have "(case r of Some index \<Rightarrow> index | None \<Rightarrow> 0) = 0" by auto
  with assms run show ?thesis
    by (simp add: inspectInvokeExpression_def pushNode_def)
qed

lemma foo_invoke_facts:
  "xor_kind fooInvoke = InvokeExpression"
  "xor_id fooInvoke = 5"
  "maybeChildByAttributeIndex fooCollection 5 1 (Some [ArrayWrapper])
     = Some (XorAst (exAst 7 ArrayWrapper (Some 1) 4 8))"
  "nodesOnCsvFromCsvArray fooCollection (XorAst (exAst 7 ArrayWrapper (Some 1) 4 8))
     = Inr [fooArgumentA, fooArgumentB]"
  by code_simp+

lemma foo_inspection_fields:
  "Inspection_State.nodeIdMapCollection (fooInspection c) = fooCollection"
  "position (fooInspection c) = \<lparr>lineNumber = 0, lineCodeUnit = c\<rparr>"
  "nodes (result (fooInspection c)) = []"
  "scope (result (fooInspection c)) = []"
  by (simp_all add: fooInspection_def newInspection_def)

text \<open>
  In \<^verbatim>\<open>foo(a, b)\<close> with the cursor at 0:6, after the comma, the cursor is on neither
  argument, and the reported index is 0.
\<close>

theorem inspectInvokeExpression_witness:
  "\<not> isPositionOnXorNode \<lparr>lineNumber = 0, lineCodeUnit = 6\<rparr> fooArgumentA
   \<and> \<not> isPositionOnXorNode \<lparr>lineNumber = 0, lineCodeUnit = 6\<rparr> fooArgumentB
   \<and> (\<exists>state'. inspectInvokeExpression (fooInspection 6) fooInvoke = Inr state'
         \<and> nodes (result state')
             = [invokeNode fooInvoke (Some ''foo'')
                  (Some \<lparr> numArguments = 2, positionArgumentIndex = 0 \<rparr>)])"
proof -
  have a: "\<not> isPositionOnXorNode \<lparr>lineNumber = 0, lineCodeUnit = 6\<rparr> fooArgumentA"
    by code_simp
  have b: "\<not> isPositionOnXorNode \<lparr>lineNumber = 0, lineCodeUnit = 6\<rparr> fooArgumentB"
    by code_simp
  have nc: "\<not> isOnCloseWrapperConstant (fooInspection 6) fooInvoke"
    by code_simp
  have nm: "invokeExpressionName (fooInspection 6) fooInvoke = Inr (Some ''foo'')"
    by code_simp
  have w: "maybeChildByAttributeIndex (Inspection_State.nodeIdMapCollection (fooInspection 6))
             (xor_id fooInvoke) 1 (Some [ArrayWrapper])
           = Some (XorAst (exAst 7 ArrayWrapper (Some 1) 4 8))"
    by (simp only: foo_invoke_facts foo_inspection_fields)
  have n: "nodesOnCsvFromCsvArray (Inspection_State.nodeIdMapCollection (fooInspection 6))
             (XorAst (exAst 7 ArrayWrapper (Some 1) 4 8))
           = Inr [fooArgumentA, fooArgumentB]"
    by (simp only: foo_invoke_facts foo_inspection_fields)
  have t: "\<forall>arg \<in> set (tl [fooArgumentA, fooArgumentB]).
             \<not> isPositionOnXorNode (position (fooInspection 6)) arg"
    using b by (simp add: foo_inspection_fields)
  from inspectInvokeExpression_index_zero [OF foo_invoke_facts(1) nc nm w n t] a b
  show ?thesis by (simp add: foo_inspection_fields numeral_2_eq_2)
qed

text \<open>
  The claim as stated fails on the end of the closing parenthesis. In \<^verbatim>\<open>foo(a, b)\<close>
  with the cursor at 0:9 the invoke expression has its argument array, the cursor is on
  neither argument, and the inspection returns the state as it was: no node, and so no
  argument index, is reported.
\<close>

theorem inspectInvokeExpression_counterexample:
  "maybeChildByAttributeIndex fooCollection (xor_id fooInvoke) 1 (Some [ArrayWrapper])
     = Some (XorAst (exAst 7 ArrayWrapper (Some 1) 4 8))
   \<and> nodesOnCsvFromCsvArray fooCollection (XorAst (exAst 7 ArrayWrapper (Some 1) 4 8))
     = Inr [fooArgumentA, fooArgumentB]
   \<and> \<not> isPositionOnXorNode \<lparr>lineNumber = 0, lineCodeUnit = 9\<rparr> fooArgumentA
   \<and> \<not> isPositionOnXorNode \<lparr>lineNumber = 0, lineCodeUnit = 9\<rparr> fooArgumentB
   \<and> inspectInvokeExpression (fooInspection 9) fooInvoke = Inr (fooInspection 9)
   \<and> nodes (result (fooInspection 9)) = []"
  by code_simp

lemma keeps_refl: "keeps walk state state"
  by (simp add: keeps_def)

lemma keeps_trans: "keeps walk a b \<Longrightarrow> keeps walk b c \<Longrightarrow> keeps walk a c"
  by (simp add: keeps_def)

lemma addToScopeIfNew_keeps:
  "scopeEntryAllowed (Inspection_State.nodeIdMapCollection state) (position state) walk x
     \<Longrightarrow> keeps walk state (addToScopeIfNew state key x)"
  by (simp add: keeps_def addToScopeIfNew_def Let_def scopeAllowed_def map_set_def)

lemma pushNode_keeps: "keeps walk state (pushNode state node)"
  by (simp add: keeps_def pushNode_def scopeAllowed_def)

lemma maybeSetPositionIdentifier_keeps:
  "maybeSetPositionIdentifier state k v = Inr state' \<Longrightarrow> keeps walk state state'"
  by (auto simp: maybeSetPositionIdentifier_def keeps_def scopeAllowed_def
      split: option.splits if_splits TXorNode.splits)

lemma inspectEachExpression_keeps:
  "xor_kind x = EachExpression \<Longrightarrow> x \<in> set walk \<Longrightarrow> inspectEachExpression state x = Inr state'
     \<Longrightarrow> keeps walk state state'"
  using keeps_trans [OF addToScopeIfNew_keeps pushNode_keeps]
  by (auto simp: inspectEachExpression_def scopeEntryAllowed_def)

lemma inspectGeneralizedIdentifier_keeps:
  "inspectGeneralizedIdentifier state x = Inr state' \<Longrightarrow> keeps walk state state'"
  by (auto simp: inspectGeneralizedIdentifier_def addAstToScopeIfNew_def keeps_refl
      scopeEntryAllowed_def intro!: addToScopeIfNew_keeps split: TXorNode.splits if_splits)

lemma inspectIdentifier_keeps:
  "inspectIdentifier state x = Inr state' \<Longrightarrow> keeps walk state state'"
  by (auto simp: inspectIdentifier_def addAstToScopeIfNew_def keeps_refl
      scopeEntryAllowed_def intro!: addToScopeIfNew_keeps split: TXorNode.splits if_splits)

lemma inspectIdentifierExpression_keeps:
  "scopeEntryAllowed (Inspection_State.nodeIdMapCollection state) (position state) walk x
     \<Longrightarrow> inspectIdentifierExpression state x = Inr state' \<Longrightarrow> keeps walk state state'"
  by (auto simp: inspectIdentifierExpression_def addAstToScopeIfNew_def
      addContextToScopeIfNew_def keeps_refl Let_def
      intro!: addToScopeIfNew_keeps split: TXorNode.splits if_splits)

lemma inspectArguments_keeps:
  "\<forall>arg \<in> set args. xor_kind arg = IdentifierExpression \<longrightarrow>
       scopeEntryAllowed (Inspection_State.nodeIdMapCollection state) (position state) walk arg
     \<Longrightarrow> inspectArguments state p args index acc = Inr (state', r)
     \<Longrightarrow> keeps walk state state'"
proof (induction args arbitrary: state index acc)
  case Nil
  then show ?case by (simp add: keeps_refl)
next
  case (Cons arg args)
  from Cons.prems(2) obtain state1 where
    first: "(if xor_kind arg = IdentifierExpression
             then inspectIdentifierExpression state arg else Inr state) = Inr state1"
    and rest: "inspectArguments state1 p args (index + 1)
                 (if isPositionOnXorNode p arg then Some index else acc) = Inr (state', r)"
    by (auto split: sum.splits)
  from first Cons.prems(1) have k: "keeps walk state state1"
    by (auto simp: keeps_refl split: if_splits intro: inspectIdentifierExpression_keeps)
  then have "Inspection_State.nodeIdMapCollection state1
               = Inspection_State.nodeIdMapCollection state"
    and "position state1 = position state"
    by (simp_all add: keeps_def)
  with Cons.prems(1) have
    "\<forall>arg \<in> set args. xor_kind arg = IdentifierExpression \<longrightarrow>
        scopeEntryAllowed (Inspection_State.nodeIdMapCollection state1) (position state1) walk arg"
    by simp
  from Cons.IH [OF this rest] k show ?case
    by (rule keeps_trans [rotated])
qed

lemma argument_allowed:
  assumes "x \<in> set walk" and "xor_kind x = InvokeExpression"
    and "maybeChildByAttributeIndex c (xor_id x) 1 (Some [ArrayWrapper]) = Some csvArrayXorNode"
    and "nodesOnCsvFromCsvArray c csvArrayXorNode = Inr args"
    and "arg \<in> set args" and "xor_kind arg = IdentifierExpression"
  shows "scopeEntryAllowed c p walk arg"
proof -
  from assms(3,4,5) have "arg \<in> set (argumentsOf c x)"
    by (simp add: argumentsOf_def)
  with assms(1,2,6) have "isArgumentOnWalk c walk arg"
    by (auto simp: isArgumentOnWalk_def list_ex_iff)
  then show ?thesis
    by (simp add: scopeEntryAllowed_def)
qed

lemma inspectInvokeExpression_keeps:
  assumes "x \<in> set walk" and "inspectInvokeExpression state x = Inr state'"
  shows "keeps walk state state'"
proof -
  from assms(2) have kind: "xor_kind x = InvokeExpression"
    by (auto simp: inspectInvokeExpression_def split: if_splits)
  show ?thesis
  proof (cases "isOnCloseWrapperConstant state x")
    case True
    with assms(2) kind show ?thesis
      by (simp add: inspectInvokeExpression_def keeps_refl)
  next
    case False
    with assms(2) kind obtain name where
      name: "invokeExpressionName state x = Inr name"
      by (auto simp: inspectInvokeExpression_def split: sum.splits)
    show ?thesis
    proof (cases "maybeChildByAttributeIndex (Inspection_State.nodeIdMapCollection state)
                    (xor_id x) 1 (Some [ArrayWrapper])")
      case None
      with assms(2) kind False name show ?thesis
        by (auto simp: inspectInvokeExpression_def pushNode_keeps)
    next
      case (Some csvArrayXorNode)
      with assms(2) kind False name obtain args state1 r where
        args: "nodesOnCsvFromCsvArray (Inspection_State.nodeIdMapCollection state)
                 csvArrayXorNode = Inr args"
        and loop: "inspectArguments state (position state) args 0 None = Inr (state1, r)"
        and push: "\<exists>node. state' = pushNode state1 node"
        by (auto simp: inspectInvokeExpression_def Let_def
            split: sum.splits prod.splits)
      from argument_allowed [OF assms(1) kind Some args]
      have "\<forall>arg \<in> set args. xor_kind arg = IdentifierExpression \<longrightarrow>
              scopeEntryAllowed (Inspection_State.nodeIdMapCollection state) (position state)
                walk arg"
        by blast
      from inspectArguments_keeps [OF this loop] push show ?thesis
        by (auto intro: keeps_trans [OF _ pushNode_keeps])
    qed
  qed
qed

lemma inspectParameter_keeps:
  "inspectParameter state x = Inr state' \<Longrightarrow> keeps walk state state'"
  by (auto simp: inspectParameter_def keeps_refl split: option.splits
      intro: inspectIdentifier_keeps)

lemma inspectParameters_keeps:
  "inspectParameters state xs = Inr state' \<Longrightarrow> keeps walk state state'"
proof (induction xs arbitrary: state)
  case Nil
  then show ?case by (simp add: keeps_refl)
next
  case (Cons x xs)
  then show ?case
    by (auto split: sum.splits intro: keeps_trans [OF inspectParameter_keeps])
qed

lemma inspectFunctionExpression_keeps:
  "inspectFunctionExpression state x = Inr state' \<Longrightarrow> keeps walk state state'"
  by (auto simp: inspectFunctionExpression_def keeps_refl
      split: if_splits option.splits sum.splits intro: inspectParameters_keeps)

lemma inspectLetPair_keeps:
  "inspectLetPair state x = Inr state' \<Longrightarrow> keeps walk state state'"
  by (auto simp: inspectLetPair_def Let_def keeps_refl split: option.splits
      intro: maybeSetPositionIdentifier_keeps)

lemma inspectLetPairs_keeps:
  "inspectLetPairs state xs = Inr state' \<Longrightarrow> keeps walk state state'"
proof (induction xs arbitrary: state)
  case Nil
  then show ?case by (simp add: keeps_refl)
next
  case (Cons x xs)
  then show ?case
    by (auto split: sum.splits intro: keeps_trans [OF inspectLetPair_keeps])
qed

lemma inspectLetExpression_keeps:
  "inspectLetExpression state x = Inr state' \<Longrightarrow> keeps walk state state'"
  by (auto simp: inspectLetExpression_def Let_def keeps_refl
      split: option.splits sum.splits intro: inspectLetPairs_keeps)

lemma inspectListExpressionOrLiteral_keeps:
  "inspectListExpressionOrLiteral state x = Inr state' \<Longrightarrow> keeps walk state state'"
  by (auto simp: inspectListExpressionOrLiteral_def keeps_refl pushNode_keeps
      split: TXorNode.splits if_splits)

lemma inspectRecordPair_keeps:
  "inspectRecordPair state x = Inr state' \<Longrightarrow> keeps walk state state'"
  by (auto simp: inspectRecordPair_def Let_def keeps_refl
      split: option.splits sum.splits
      intro: inspectGeneralizedIdentifier_keeps
        keeps_trans [OF inspectGeneralizedIdentifier_keeps maybeSetPositionIdentifier_keeps])

lemma inspectRecordPairs_keeps:
  "inspectRecordPairs state xs = Inr state' \<Longrightarrow> keeps walk state state'"
proof (induction xs arbitrary: state)
  case Nil
  then show ?case by (simp add: keeps_refl)
next
  case (Cons x xs)
  then show ?case
    by (auto split: sum.splits intro: keeps_trans [OF inspectRecordPair_keeps])
qed

lemma inspectRecordNode_keeps:
  "inspectRecordNode state x = Some state' \<Longrightarrow> keeps walk state state'"
  by (auto simp: inspectRecordNode_def keeps_refl pushNode_keeps
      split: TXorNode.splits if_splits)

lemma inspectRecordExpressionOrLiteral_keeps:
  assumes "inspectRecordExpressionOrLiteral state x = Inr state'"
  shows "keeps walk state state'"
proof (cases "inspectRecordNode state x")
  case None
  with assms show ?thesis
    by (simp add: inspectRecordExpressionOrLiteral_def keeps_refl)
next
  case (Some state1)
  then have k: "keeps walk state state1"
    by (rule inspectRecordNode_keeps)
  from assms Some have "state' = state1 \<or> (\<exists>xs. inspectRecordPairs state1 xs = Inr state')"
    by (auto simp: inspectRecordExpressionOrLiteral_def Let_def
        split: option.splits sum.splits)
  with k show ?thesis
    by (auto intro: keeps_trans [OF _ inspectRecordPairs_keeps])
qed

lemma inspectRecursivePrimaryExpression_keeps:
  assumes "x \<in> set walk" and "xor_kind x = RecursivePrimaryExpression"
    and "inspectRecursivePrimaryExpression state x = Inr state'"
  shows "keeps walk state state'"
proof (cases "maybeChildByAttributeIndex (Inspection_State.nodeIdMapCollection state)
                (xor_id x) 0 None")
  case None
  with assms(3) show ?thesis
    by (simp add: inspectRecursivePrimaryExpression_def keeps_refl)
next
  case (Some headXorNode)
  show ?thesis
  proof (cases "xor_kind headXorNode = IdentifierExpression")
    case False
    with assms(3) Some show ?thesis
      by (simp add: inspectRecursivePrimaryExpression_def keeps_refl)
  next
    case True
    with assms(1,2) Some
    have "isHeadOnWalk (Inspection_State.nodeIdMapCollection state) walk headXorNode"
      by (auto simp: isHeadOnWalk_def list_ex_iff)
    then have "scopeEntryAllowed (Inspection_State.nodeIdMapCollection state) (position state)
                 walk headXorNode"
      by (simp add: scopeEntryAllowed_def)
    moreover from assms(3) Some True
    have "inspectIdentifierExpression state headXorNode = Inr state'"
      by (simp add: inspectRecursivePrimaryExpression_def)
    ultimately show ?thesis
      by (rule inspectIdentifierExpression_keeps)
  qed
qed

lemma inspectSectionMember_keeps:
  "inspectSectionMember state x = Inr state' \<Longrightarrow> keeps walk state state'"
  by (auto simp: inspectSectionMember_def Let_def keeps_refl
      split: option.splits sum.splits
      intro: inspectIdentifier_keeps
        keeps_trans [OF inspectIdentifier_keeps maybeSetPositionIdentifier_keeps])

lemma inspectSectionMembers_keeps:
  "inspectSectionMembers state xs = Inr state' \<Longrightarrow> keeps walk state state'"
proof (induction xs arbitrary: state)
  case Nil
  then show ?case by (simp add: keeps_refl)
next
  case (Cons x xs)
  then show ?case
    by (auto split: sum.splits intro: keeps_trans [OF inspectSectionMember_keeps])
qed

lemma inspectSection_keeps:
  "inspectSection state x = Inr state' \<Longrightarrow> keeps walk state state'"
  by (auto simp: inspectSection_def Let_def keeps_refl
      split: option.splits sum.splits intro: inspectSectionMembers_keeps)

lemma visitNode_keeps:
  assumes "x \<in> set walk" and "visitNode x state = Inr state'"
  shows "keeps walk state state'"
proof (cases "xor_kind x")
  case EachExpression
  with assms show ?thesis by (simp add: visitNode_def inspectEachExpression_keeps)
next
  case FunctionExpression
  with assms show ?thesis by (simp add: visitNode_def inspectFunctionExpression_keeps)
next
  case Identifier
  with assms show ?thesis by (simp add: visitNode_def inspectIdentifier_keeps)
next
  case IdentifierExpression
  with assms(1)
  have "scopeEntryAllowed (Inspection_State.nodeIdMapCollection state) (position state) walk x"
    by (simp add: scopeEntryAllowed_def)
  with assms(2) IdentifierExpression show ?thesis
    by (simp add: visitNode_def inspectIdentifierExpression_keeps)
next
  case InvokeExpression
  with assms show ?thesis by (simp add: visitNode_def inspectInvokeExpression_keeps)
next
  case LetExpression
  with assms show ?thesis by (simp add: visitNode_def inspectLetExpression_keeps)
next
  case ListExpression
  with assms show ?thesis by (simp add: visitNode_def inspectListExpressionOrLiteral_keeps)
next
  case ListType
  with assms show ?thesis by (simp add: visitNode_def inspectListExpressionOrLiteral_keeps)
next
  case RecordExpression
  with assms show ?thesis by (simp add: visitNode_def inspectRecordExpressionOrLiteral_keeps)
next
  case RecordLiteral
  with assms show ?thesis by (simp add: visitNode_def inspectRecordExpressionOrLiteral_keeps)
next
  case RecursivePrimaryExpression
  with assms show ?thesis by (simp add: visitNode_def inspectRecursivePrimaryExpression_keeps)
next
  case Section
  with assms show ?thesis by (simp add: visitNode_def inspectSection_keeps)
qed (use assms in \<open>simp_all add: visitNode_def keeps_refl\<close>)

lemma visitAncestry_keeps:
  "set ancestry \<subseteq> set walk \<Longrightarrow> visitAncestry state ancestry = Inr state'
     \<Longrightarrow> keeps walk state state'"
proof (induction ancestry arbitrary: state)
  case Nil
  then show ?case by (simp add: keeps_refl)
next
  case (Cons x ancestry)
  from Cons.prems(2) obtain state1 where
    first: "visitNode x state = Inr state1"
    and rest: "visitAncestry state1 ancestry = Inr state'"
    by (auto split: sum.splits)
  from Cons.prems(1) have "x \<in> set walk" and "set ancestry \<subseteq> set walk"
    by simp_all
  with first rest Cons.IH show ?case
    by (blast intro: keeps_trans visitNode_keeps)
qed

text \<open>
  What the walk puts into an empty scope: a node of the walk that is an each expression
  or an identifier expression, the head of a recursive primary expression of the walk,
  an identifier-expression argument of an invoke expression of the walk, or an
  \<open>Identifier\<close> or \<open>GeneralizedIdentifier\<close> AST node that ends on or before the cursor.
\<close>

lemma visitAncestry_scope_allowed:
  assumes "visitAncestry (newInspection c cursor maybeIdentifier) ancestry = Inr state'"
    and "(key, xorNode) \<in> set (scope (result state'))"
  shows "scopeEntryAllowed c cursor ancestry xorNode"
proof -
  have "scopeAllowed ancestry (newInspection c cursor maybeIdentifier)"
    by (simp add: scopeAllowed_def newInspection_def)
  with visitAncestry_keeps [OF subset_refl assms(1)]
  have "scopeAllowed ancestry state'" and "position state' = cursor"
    and "Inspection_State.nodeIdMapCollection state' = c"
    by (simp_all add: keeps_def newInspection_def)
  with assms(2) show ?thesis
    by (auto simp: scopeAllowed_def list_all_iff)
qed

lemma ordered_not_startsAfter:
  assumes "isTokenPositionOnOrBeforeBeforePostion (TokenRange.positionEnd (tokenRange node)) cursor"
    and "rangeOrdered (tokenRange node)"
  shows "\<not> startsAfter (XorAst node) cursor"
  using assms
  by (auto simp: startsAfter_def rangeOrdered_def isTokenPositionOnOrBeforeBeforePostion_def
      isTokenPositionOnPosition_def isTokenPositionBeforePostion_def)

text \<open>
  C1, as amended. Take a walk of \<^verbatim>\<open>visitNode\<close> over an ancestry, started from an
  empty scope, on which no node starts after the cursor and no head of a recursive
  primary expression starts after the cursor (the nodes above the leaf under the cursor
  hold that leaf, and a head starts where its expression starts). Then an entry of the
  scope map whose binder starts strictly after the cursor is an identifier-expression
  argument of an invoke expression of the walk, which \<^verbatim>\<open>inspectInvokeExpression\<close> adds
  wherever it lies; the one other case is an \<open>Identifier\<close> or \<open>GeneralizedIdentifier\<close>
  node that ends on or before the cursor and whose token range is inverted (it starts
  after it ends), which no parsed tree holds.
\<close>

theorem visitAncestry_scope_entries:
  assumes "visitAncestry (newInspection c cursor maybeIdentifier) ancestry = Inr state'"
    and "\<forall>w \<in> set ancestry. \<not> startsAfter w cursor"
    and "\<forall>w \<in> set ancestry. xor_kind w = RecursivePrimaryExpression \<longrightarrow>
           (case maybeChildByAttributeIndex c (xor_id w) 0 None of
              None \<Rightarrow> True
            | Some headXorNode \<Rightarrow> \<not> startsAfter headXorNode cursor)"
    and "(key, xorNode) \<in> set (scope (result state'))"
    and "startsAfter xorNode cursor"
  shows "isArgumentOnWalk c ancestry xorNode
         \<or> (\<exists>node. xorNode = XorAst node
               \<and> (INode.kind node = NodeKind.Identifier
                   \<or> INode.kind node = GeneralizedIdentifier)
               \<and> isTokenPositionOnOrBeforeBeforePostion
                     (TokenRange.positionEnd (tokenRange node)) cursor
               \<and> \<not> rangeOrdered (tokenRange node))"
proof -
  from visitAncestry_scope_allowed [OF assms(1,4)]
  have allowed: "scopeEntryAllowed c cursor ancestry xorNode" .
  from assms(2,5) have walk: "xorNode \<notin> set ancestry"
    by blast
  from assms(3,5) have head: "\<not> isHeadOnWalk c ancestry xorNode"
    by (fastforce simp: isHeadOnWalk_def list_ex_iff)
  show ?thesis
  proof (cases xorNode)
    case (XorAst node)
    with allowed walk head assms(5) ordered_not_startsAfter [of node cursor] show ?thesis
      by (auto simp: scopeEntryAllowed_def)
  next
    case (XorContext node)
    with allowed walk head show ?thesis
      by (auto simp: scopeEntryAllowed_def)
  qed
qed

lemma scopeOf_Inr: "scopeOf r = Inr m \<Longrightarrow> \<exists>state'. r = Inr state' \<and> scope (result state') = m"
  by (cases r) (simp_all add: scopeOf_def)

lemma foo_walk:
  "scopeOf (visitAncestry (fooInspection 5) fooAncestry)
     = Inr [(''a'', fooArgumentA), (''b'', fooArgumentB), (''foo'', fooHead)]"
  by code_simp

text \<open>
  In \<^verbatim>\<open>foo(a, b)\<close> with the cursor at 0:5, the end of \<^verbatim>\<open>a\<close>, no node of the walk
  from the leaf \<^verbatim>\<open>a\<close> and no head starts after the cursor. The scope holds \<^verbatim>\<open>b\<close>,
  which starts at 0:7, and \<^verbatim>\<open>b\<close> is an argument of the invoke expression of the walk.
\<close>

theorem visitAncestry_scope_witness:
  "list_all (\<lambda>w. \<not> startsAfter w \<lparr>lineNumber = 0, lineCodeUnit = 5\<rparr>) fooAncestry
   \<and> list_all
         (\<lambda>w. xor_kind w = RecursivePrimaryExpression \<longrightarrow>
               (case maybeChildByAttributeIndex fooCollection (xor_id w) 0 None of
                  None \<Rightarrow> True
                | Some headXorNode \<Rightarrow>
                    \<not> startsAfter headXorNode \<lparr>lineNumber = 0, lineCodeUnit = 5\<rparr>))
         fooAncestry
   \<and> (\<exists>state'. visitAncestry (fooInspection 5) fooAncestry = Inr state'
         \<and> (''b'', fooArgumentB) \<in> set (scope (result state')))
   \<and> startsAfter fooArgumentB \<lparr>lineNumber = 0, lineCodeUnit = 5\<rparr>
   \<and> isArgumentOnWalk fooCollection fooAncestry fooArgumentB"
proof -
  from scopeOf_Inr [OF foo_walk]
  obtain state' where s: "visitAncestry (fooInspection 5) fooAncestry = Inr state'"
    "scope (result state') = [(''a'', fooArgumentA), (''b'', fooArgumentB), (''foo'', fooHead)]"
    by blast
  have n: "\<forall>w \<in> set fooAncestry. \<not> startsAfter w \<lparr>lineNumber = 0, lineCodeUnit = 5\<rparr>"
    by code_simp
  have h: "\<forall>w \<in> set fooAncestry. xor_kind w = RecursivePrimaryExpression \<longrightarrow>
             (case maybeChildByAttributeIndex fooCollection (xor_id w) 0 None of
                None \<Rightarrow> True
              | Some headXorNode \<Rightarrow>
                  \<not> startsAfter headXorNode \<lparr>lineNumber = 0, lineCodeUnit = 5\<rparr>)"
    by code_simp
  have m: "(''b'', fooArgumentB) \<in> set (scope (result state'))"
    using s by simp
  have t: "startsAfter fooArgumentB \<lparr>lineNumber = 0, lineCodeUnit = 5\<rparr>"
    by code_simp
  have r: "\<forall>node. fooArgumentB = XorAst node \<longrightarrow> rangeOrdered (tokenRange node)"
    by (simp add: fooArgumentB_def exAst_def exRange_def exPos_def rangeOrdered_def)
  from visitAncestry_scope_entries [OF s(1) [unfolded fooInspection_def] n h m t] r
  have "isArgumentOnWalk fooCollection fooAncestry fooArgumentB"
    by blast
  with s(1) m t n [folded list_all_iff] h [folded list_all_iff] show ?thesis
    by blast
qed

text \<open>
  The claim as stated fails for the arguments of an invoke expression. In
  \<^verbatim>\<open>foo(a, b)\<close> with the cursor at 0:5, the end of \<^verbatim>\<open>a\<close>, the walk from the leaf
  \<^verbatim>\<open>a\<close> to the root (each node the parent of the one before) returns a scope with the
  key \<^verbatim>\<open>b\<close>, bound to the second argument, which starts at 0:7, strictly after the
  cursor.
\<close>

theorem visitAncestry_scope_counterexample:
  "map (map_get (parentIdById fooCollection)) [10, 9, 8, 7, 5, 4, 1]
     = [Some 9, Some 8, Some 7, Some 5, Some 4, Some 1, None]
   \<and> map (map_option xor_id) (map (maybeXor fooCollection) [10, 9, 8, 7, 5, 4, 1])
     = map (Some \<circ> xor_id) fooAncestry
   \<and> (\<exists>state'. visitAncestry (fooInspection 5) fooAncestry = Inr state'
         \<and> map_get (scope (result state')) ''b'' = Some fooArgumentB)
   \<and> startsAfter fooArgumentB \<lparr>lineNumber = 0, lineCodeUnit = 5\<rparr>"
proof -
  from scopeOf_Inr [OF foo_walk]
  obtain state' where s: "visitAncestry (fooInspection 5) fooAncestry = Inr state'"
    "scope (result state') = [(''a'', fooArgumentA), (''b'', fooArgumentB), (''foo'', fooHead)]"
    by blast
  then have b: "map_get (scope (result state')) ''b'' = Some fooArgumentB"
    by (simp add: map_get_def)
  have p: "map (map_get (parentIdById fooCollection)) [10, 9, 8, 7, 5, 4, 1]
             = [Some 9, Some 8, Some 7, Some 5, Some 4, Some 1, None]"
    by code_simp
  have a: "map (map_option xor_id) (map (maybeXor fooCollection) [10, 9, 8, 7, 5, 4, 1])
             = map (Some \<circ> xor_id) fooAncestry"
    by code_simp
  have t: "startsAfter fooArgumentB \<lparr>lineNumber = 0, lineCodeUnit = 5\<rparr>"
    by code_simp
  from s(1) b p a t show ?thesis by blast
qed

end
